theory Spec2Isabelle
  imports Main "HOL-Library.Char_ord" "HOL-Library.List_Lexorder"
begin

section \<open>Library values used by simulation.go\<close>

subsection \<open>Raw JSON messages\<close>

text \<open>
  A \<open>json.RawMessage\<close> holds the text of one syntactically valid JSON value. It is
  modelled by the value's syntax tree. A string literal keeps the text written between
  its quotes, unescaped or not, because the decoder compares raw text: the Go string
  \<open>"LineItem"\<close> (quotes included) is the raw message \<open>JString ''LineItem''\<close>. Object
  members are kept in document order.
\<close>

datatype json =
    JNull
  | JBool bool
  | JNumber string
  | JString string
  | JArray "json list"
  | JObject "(string \<times> json) list"

text \<open>
  \<open>json.Unmarshal(tiString, &rawItem)\<close> with \<open>rawItem\<close> of type
  \<open>map[string]json.RawMessage\<close>: an object fills the map (a repeated member name keeps
  its last value), \<open>null\<close> leaves the map nil (every lookup then finds nothing), and any
  other value is an error of the library.
\<close>

fun unmarshalAuxItem :: "json \<Rightarrow> string + (string \<rightharpoonup> json)" where
  "unmarshalAuxItem (JObject kvs) = Inr (map_of (rev kvs))"
| "unmarshalAuxItem JNull = Inr Map.empty"
| "unmarshalAuxItem _ = Inl ''json: cannot unmarshal into Go value of type simulation.auxItem''"

subsection \<open>strings.Trim and strconv.Atoi\<close>

definition Trim :: "string \<Rightarrow> string \<Rightarrow> string" where
  "Trim s cutset =
     rev (dropWhile (\<lambda>c. c \<in> set cutset) (rev (dropWhile (\<lambda>c. c \<in> set cutset) s)))"

datatype numError = ErrSyntax | ErrRange

text \<open>
  The digit loop of \<open>strconv.ParseUint\<close> in base 10 with 64 bits: a byte that is not a
  decimal digit is a syntax error, a value past \<open>2^64 - 1\<close> a range error, whichever
  comes first from the left.
\<close>

fun parseUint :: "string \<Rightarrow> nat \<Rightarrow> numError + nat" where
  "parseUint [] n = Inr n"
| "parseUint (c # cs) n =
     (let d = (of_char c :: nat) in
      if \<not> (48 \<le> d \<and> d \<le> 57) then Inl ErrSyntax
      else if n * 10 + (d - 48) > 2 ^ 64 - 1 then Inl ErrRange
      else parseUint cs (n * 10 + (d - 48)))"

text \<open>
  \<open>strconv.Atoi\<close> where \<open>int\<close> has 64 bits: an optional sign, then at least one decimal
  digit, and the value within \<open>-2^63 .. 2^63 - 1\<close>.
\<close>

definition Atoi :: "string \<Rightarrow> numError + int" where
  "Atoi s =
     (if s = [] then Inl ErrSyntax
      else
        let neg = (hd s = CHR ''-'');
            body = (if hd s = CHR ''-'' \<or> hd s = CHR ''+'' then tl s else s)
        in
          if body = [] then Inl ErrSyntax
          else
            (case parseUint body 0 of
               Inl e \<Rightarrow> Inl e
             | Inr un \<Rightarrow>
                 if \<not> neg \<and> un \<ge> 2 ^ 63 then Inl ErrRange
                 else if neg \<and> un > 2 ^ 63 then Inl ErrRange
                 else Inr (if neg then - int un else int un)))"

subsection \<open>Time\<close>

text \<open>
  Modelled from the spec: the simulation's \<open>Time\<close> type is declared outside
  simulation.go. The spec speaks of a current time advanced by a fixed step and of
  scheduled departure times ordered as earlier and later, so a time is an instant counted
  in nanoseconds. \<open>Add\<close> moves an instant by a duration. \<open>Sub\<close> yields a
  \<open>time.Duration\<close>, a signed 64-bit count of nanoseconds, and is clamped to that range as
  the standard library's \<open>Time.Sub\<close> is.
\<close>

type_synonym Time = int
type_synonym Duration = int

definition Millisecond :: Duration where
  "Millisecond = 1000000"

definition timeStep :: Duration where
  "timeStep = 500 * Millisecond"

definition Add :: "Time \<Rightarrow> Duration \<Rightarrow> Time" where
  "Add t d = t + d"

definition minDuration :: Duration where
  "minDuration = - (2 ^ 63)"

definition maxDuration :: Duration where
  "maxDuration = 2 ^ 63 - 1"

definition Sub :: "Time \<Rightarrow> Time \<Rightarrow> Duration" where
  "Sub t u =
     (if t - u < minDuration then minDuration
      else if t - u > maxDuration then maxDuration
      else t - u)"

section \<open>The data model\<close>

text \<open>
  The kind tags that \<open>checkTrackItemsLinks\<close> switches on.
\<close>

datatype tiType =
    place
  | lineItem
  | invisibleLinkItem
  | endItem
  | platformItem
  | textItem
  | pointsItem
  | signalItem

text \<open>
  Modelled from the spec: the \<open>TrackItem\<close> interface and the seven structs behind it
  are declared outside simulation.go. A track item has a kind tag, an integer identity
  assigned from its scenario key, and a back-reference to the simulation; the rest of what
  was decoded is kept as the JSON it came from. Only one simulation exists during a
  decode, so the back-reference is either unset or set to it.
\<close>

record TrackItem =
  ti_Type :: tiType
  ti_ID :: int
  ti_simulation :: bool
  ti_content :: json

text \<open>
  Modelled from the spec: the structs \<open>Place\<close>, \<open>options\<close>, \<open>Route\<close>, \<open>TrainType\<close>,
  \<open>Service\<close>, its line stops, \<open>Train\<close>, \<open>MessageLogger\<close> and \<open>Event\<close> are declared
  outside simulation.go. Each record has the fields simulation.go reads or writes
  (\<open>PlaceCode\<close>, \<open>CurrentTime\<close>, \<open>Lines\<close>, \<open>ScheduledDepartureTime\<close>, \<open>ServiceCode\<close>),
  the back-reference that \<open>setSimulation\<close> assigns where the spec gives the struct one, and
  the rest of its content as decoded.
\<close>

record Place =
  PlaceCode :: string
  place_content :: json

record options =
  CurrentTime :: Time
  options_content :: json

text \<open>
  Modelled from the spec: a route holds a path specification and a back-reference to the
  simulation, and has an initialization step to run after the back-reference is assigned.
\<close>

record Route =
  route_simulation :: bool
  route_initialized :: bool
  route_content :: json

record TrainType =
  tt_simulation :: bool
  tt_content :: json

record ServiceLine =
  ScheduledDepartureTime :: Time
  line_content :: json

record Service =
  Lines :: "ServiceLine list"
  service_simulation :: bool

record Train =
  ServiceCode :: string
  train_simulation :: bool

record MessageLogger =
  ml_simulation :: bool
  Messages :: "string list"

datatype EventName = ClockEvent

datatype Event = Event EventName Time

record Ticker =
  period :: Duration
  ticking :: bool

text \<open>
  The \<open>Simulation\<close> struct. A Go map is a partial function; a nil pointer or channel is
  \<open>None\<close>. An allocated channel is unbuffered and has no content of its own.
\<close>

record Simulation =
  SignalLib :: json
  TrackItems :: "int \<rightharpoonup> TrackItem"
  Places :: "string \<rightharpoonup> Place"
  Options :: options
  Routes :: "int \<rightharpoonup> Route"
  TrainTypes :: "string \<rightharpoonup> TrainType"
  Services :: "string \<rightharpoonup> Service"
  Trains :: "Train list"
  MessageLogger :: "MessageLogger option"
  EventChan :: "unit option"
  clockTicker :: "Ticker option"
  stopChan :: "unit option"

text \<open>
  The local \<open>auxSim\<close> struct of \<open>UnmarshalJSON\<close>. A map that the function ranges
  over is the list of its entries, keys distinct, in the order the range visits them; Go
  leaves that order unspecified, so statements are made for every order.
\<close>

record auxSim =
  aux_TrackItems :: "(string \<times> json) list"
  aux_Options :: options
  aux_SignalLib :: json
  aux_Routes :: "(string \<times> Route) list"
  aux_TrainTypes :: "string \<rightharpoonup> TrainType"
  aux_Services :: "string \<rightharpoonup> Service"
  aux_Trains :: "Train list"
  aux_MessageLogger :: "MessageLogger option"

datatype 'pt error =
    DecodeSimulationError string
  | ReadTrackItemError json string
  | DecodeTrackItemError "json option" json string
  | ConvertError numError
  | DecodePlaceError json string
  | UnknownTrackItemTypeError "json option"
  | ItemNotLinkedAtError TrackItem 'pt
  | InvalidRouteNumError string

text \<open>
  What simulation.go calls and does not define: the decoding of a raw message into one
  of the seven track-item structs or into a place (\<open>Inl\<close> the library's message), the
  order in which a range visits the values of the track-item map, the link accessors of a
  track item and its connection points (of a type \<open>'pt\<close>), and \<open>sort.Slice\<close>, whose
  comparator may panic.
\<close>

record 'pt externals =
  unmarshalTI :: "tiType \<Rightarrow> json \<Rightarrow> string + TrackItem"
  unmarshalPlace :: "json \<Rightarrow> string + Place"
  rangeItems :: "(int \<rightharpoonup> TrackItem) \<Rightarrow> TrackItem list"
  NextItem :: "Simulation \<Rightarrow> TrackItem \<Rightarrow> TrackItem option"
  PreviousItem :: "Simulation \<Rightarrow> TrackItem \<Rightarrow> TrackItem option"
  ReverseItem :: "Simulation \<Rightarrow> TrackItem \<Rightarrow> TrackItem option"
  Origin :: "TrackItem \<Rightarrow> 'pt"
  End :: "TrackItem \<Rightarrow> 'pt"
  Reverse :: "TrackItem \<Rightarrow> 'pt"
  sortSlice :: "(Train \<Rightarrow> Train \<Rightarrow> string + bool) \<Rightarrow> Train list \<Rightarrow> string + Train list"

section \<open>Scenario decode: the track items\<close>

text \<open>
  The closure \<open>unmarshalItem\<close>: decode the raw message into the struct for \<open>kind\<close>,
  parse the key with its double quotes trimmed, then set the back-reference and the id and
  store the item under the id. It returns its error and the simulation.
\<close>

definition unmarshalItem ::
  "'pt externals \<Rightarrow> string \<Rightarrow> json \<Rightarrow> json option \<Rightarrow> tiType \<Rightarrow> Simulation
     \<Rightarrow> 'pt error option \<times> Simulation" where
  "unmarshalItem ext tiId tiString tiType kind sim =
     (case unmarshalTI ext kind tiString of
        Inl err \<Rightarrow> (Some (DecodeTrackItemError tiType tiString err), sim)
      | Inr ti \<Rightarrow>
          (case Atoi (Trim tiId [CHR 0x22]) of
             Inl errconv \<Rightarrow> (Some (ConvertError errconv), sim)
           | Inr n \<Rightarrow>
               (None,
                sim\<lparr>TrackItems := (TrackItems sim)(n \<mapsto> ti\<lparr>ti_simulation := True, ti_ID := n\<rparr>)\<rparr>)))"

text \<open>
  The struct that each of the seven track-item discriminators selects.
\<close>

definition itemKinds :: "(string \<times> tiType) list" where
  "itemKinds =
     [(''LineItem'', lineItem),
      (''InvisibleLinkItem'', invisibleLinkItem),
      (''EndItem'', endItem),
      (''PlatformItem'', platformItem),
      (''TextItem'', textItem),
      (''PointsItem'', pointsItem),
      (''SignalItem'', signalItem)]"

text \<open>
  One iteration of the loop over \<open>rawSim.TrackItems\<close>. The seven track-item cases
  call \<open>unmarshalItem\<close> as a statement, so the error it returns is dropped and the loop
  goes on; the \<open>Place\<close> case and the default case return.
\<close>

definition trackItemStep ::
  "'pt externals \<Rightarrow> string \<times> json \<Rightarrow> Simulation \<Rightarrow> 'pt error option \<times> Simulation" where
  "trackItemStep ext entry sim =
     (let tiId = fst entry; tiString = snd entry in
      case unmarshalAuxItem tiString of
        Inl err \<Rightarrow> (Some (ReadTrackItemError tiString err), sim)
      | Inr rawItem \<Rightarrow>
          (let tiType = rawItem ''__type__'' in
           if tiType = Some (JString ''LineItem'') then
             (None, snd (unmarshalItem ext tiId tiString tiType lineItem sim))
           else if tiType = Some (JString ''InvisibleLinkItem'') then
             (None, snd (unmarshalItem ext tiId tiString tiType invisibleLinkItem sim))
           else if tiType = Some (JString ''EndItem'') then
             (None, snd (unmarshalItem ext tiId tiString tiType endItem sim))
           else if tiType = Some (JString ''PlatformItem'') then
             (None, snd (unmarshalItem ext tiId tiString tiType platformItem sim))
           else if tiType = Some (JString ''TextItem'') then
             (None, snd (unmarshalItem ext tiId tiString tiType textItem sim))
           else if tiType = Some (JString ''PointsItem'') then
             (None, snd (unmarshalItem ext tiId tiString tiType pointsItem sim))
           else if tiType = Some (JString ''SignalItem'') then
             (None, snd (unmarshalItem ext tiId tiString tiType signalItem sim))
           else if tiType = Some (JString ''Place'') then
             (case unmarshalPlace ext tiString of
                Inl err \<Rightarrow> (Some (DecodePlaceError tiString err), sim)
              | Inr pl \<Rightarrow> (None, sim\<lparr>Places := (Places sim)(PlaceCode pl \<mapsto> pl)\<rparr>))
           else (Some (UnknownTrackItemTypeError tiType), sim)))"

fun trackItemsLoop ::
  "'pt externals \<Rightarrow> (string \<times> json) list \<Rightarrow> Simulation \<Rightarrow> 'pt error option \<times> Simulation" where
  "trackItemsLoop ext [] sim = (None, sim)"
| "trackItemsLoop ext (entry # rest) sim =
     (case trackItemStep ext entry sim of
        (Some err, sim') \<Rightarrow> (Some err, sim')
      | (None, sim') \<Rightarrow> trackItemsLoop ext rest sim')"

section \<open>Network validation\<close>

text \<open>
  The switch of \<open>checkTrackItemsLinks\<close> for one item. The cases fall through: points
  check the reverse link, then share the next-link check of lines, invisible links and
  signals, which then share the previous-link check of end items. The switch has no
  default case, and the eight tags are all there are. The points case asserts that the
  item is a points struct, which is the struct that carries the points tag.
\<close>

definition checkPrevious :: "'pt externals \<Rightarrow> Simulation \<Rightarrow> TrackItem \<Rightarrow> 'pt error option" where
  "checkPrevious ext sim ti =
     (if PreviousItem ext sim ti = None then Some (ItemNotLinkedAtError ti (Origin ext ti))
      else None)"

definition checkNext :: "'pt externals \<Rightarrow> Simulation \<Rightarrow> TrackItem \<Rightarrow> 'pt error option" where
  "checkNext ext sim ti =
     (if NextItem ext sim ti = None then Some (ItemNotLinkedAtError ti (End ext ti))
      else checkPrevious ext sim ti)"

definition checkItem :: "'pt externals \<Rightarrow> Simulation \<Rightarrow> TrackItem \<Rightarrow> 'pt error option" where
  "checkItem ext sim ti =
     (case ti_Type ti of
        place \<Rightarrow> None
      | platformItem \<Rightarrow> None
      | textItem \<Rightarrow> None
      | pointsItem \<Rightarrow>
          if ReverseItem ext sim ti = None then Some (ItemNotLinkedAtError ti (Reverse ext ti))
          else checkNext ext sim ti
      | lineItem \<Rightarrow> checkNext ext sim ti
      | invisibleLinkItem \<Rightarrow> checkNext ext sim ti
      | signalItem \<Rightarrow> checkNext ext sim ti
      | endItem \<Rightarrow> checkPrevious ext sim ti)"

fun checkItems :: "'pt externals \<Rightarrow> Simulation \<Rightarrow> TrackItem list \<Rightarrow> 'pt error option" where
  "checkItems ext sim [] = None"
| "checkItems ext sim (ti # rest) =
     (case checkItem ext sim ti of
        Some err \<Rightarrow> Some err
      | None \<Rightarrow> checkItems ext sim rest)"

definition checkTrackItemsLinks :: "'pt externals \<Rightarrow> Simulation \<Rightarrow> 'pt error option" where
  "checkTrackItemsLinks ext sim = checkItems ext sim (rangeItems ext (TrackItems sim))"

section \<open>Scenario decode: routes, schedule and message log\<close>

text \<open>
  Modelled from the spec: \<open>Route.setSimulation\<close> and \<open>Route.initialize\<close> are declared
  outside simulation.go; the first assigns the back-reference, the second runs the route's
  initialization step.
\<close>

definition route_setSimulation :: "Route \<Rightarrow> Route" where
  "route_setSimulation r = r\<lparr>route_simulation := True\<rparr>"

definition route_initialize :: "Route \<Rightarrow> Route" where
  "route_initialize r = r\<lparr>route_initialized := True\<rparr>"

text \<open>
  The loop over \<open>rawSim.Routes\<close>. The routes are objects reached through pointers, so
  the loop also returns them as it leaves them: what it did to a route stays done when
  the loop returns an error.
\<close>

type_synonym 'pt routesResult = "'pt error option \<times> (string \<times> Route) list \<times> Simulation"

fun routesLoop :: "(string \<times> Route) list \<Rightarrow> Simulation \<Rightarrow> 'pt routesResult" where
  "routesLoop [] sim = (None, [], sim)"
| "routesLoop ((num, route) # rest) sim =
     (let route' = route_initialize (route_setSimulation route) in
      case Atoi num of
        Inl errRoute \<Rightarrow> (Some (InvalidRouteNumError num), (num, route') # rest, sim)
      | Inr routeNum \<Rightarrow>
          (case routesLoop rest (sim\<lparr>Routes := (Routes sim)(routeNum \<mapsto> route')\<rparr>) of
             (err, objs, sim') \<Rightarrow> (err, (num, route') # objs, sim')))"

text \<open>
  Modelled from the spec: \<open>Train.Service\<close> is declared outside simulation.go; a train
  references its service by code, so the accessor looks the code up in the simulation's
  services and yields nil when there is none.
\<close>

definition train_Service :: "Simulation \<Rightarrow> Train \<Rightarrow> Service option" where
  "train_Service sim t = Services sim (ServiceCode t)"

definition nilDereference :: string where
  "nilDereference = ''runtime error: invalid memory address or nil pointer dereference''"

text \<open>
  The comparator handed to \<open>sort.Slice\<close>, on the two trains at the indices it is
  called with. Reading \<open>Lines\<close> of a nil service panics. The first case reads the
  second train's service only when the first train's has no line.
\<close>

definition trainLess :: "Simulation \<Rightarrow> Train \<Rightarrow> Train \<Rightarrow> string + bool" where
  "trainLess sim ti tj =
     (case train_Service sim ti of
        None \<Rightarrow> Inl nilDereference
      | Some si \<Rightarrow>
          if length (Lines si) = 0 then
            (case train_Service sim tj of
               None \<Rightarrow> Inl nilDereference
             | Some sj \<Rightarrow>
                 if length (Lines sj) = 0 then Inr (ServiceCode ti < ServiceCode tj)
                 else Inr False)
          else
            (case train_Service sim tj of
               None \<Rightarrow> Inl nilDereference
             | Some sj \<Rightarrow>
                 if length (Lines sj) = 0 then Inr True
                 else
                   Inr (Sub (ScheduledDepartureTime (Lines si ! 0))
                            (ScheduledDepartureTime (Lines sj ! 0)) < 0)))"

text \<open>
  A call either returns an error value (nil is \<open>None\<close>) or panics.
\<close>

datatype 'pt outcome = Returned "'pt error option" | Panicked string

text \<open>
  The second half of \<open>UnmarshalJSON\<close>, after the network validation. The
  \<open>setSimulation\<close> methods are declared outside simulation.go and assign the
  back-reference; on the nil message logger that is a nil dereference.
\<close>

definition decodeRest ::
  "'pt externals \<Rightarrow> auxSim \<Rightarrow> Simulation \<Rightarrow> 'pt outcome \<times> Simulation" where
  "decodeRest ext rawSim sim1 =
     (case routesLoop (aux_Routes rawSim)
             (sim1\<lparr>Options := aux_Options rawSim, SignalLib := aux_SignalLib rawSim,
                   Routes := Map.empty\<rparr>) of
        (Some err, objs, sim2) \<Rightarrow> (Returned (Some err), sim2)
      | (None, objs, sim2) \<Rightarrow>
          (let sim3 = sim2
                 \<lparr>TrainTypes :=
                    (\<lambda>k. map_option (\<lambda>tt. tt\<lparr>tt_simulation := True\<rparr>) (aux_TrainTypes rawSim k)),
                  Services :=
                    (\<lambda>k. map_option (\<lambda>s. s\<lparr>service_simulation := True\<rparr>) (aux_Services rawSim k)),
                  Trains := map (\<lambda>t. t\<lparr>train_simulation := True\<rparr>) (aux_Trains rawSim)\<rparr>
           in
             case sortSlice ext (trainLess sim3) (Trains sim3) of
               Inl p \<Rightarrow> (Panicked p, sim3)
             | Inr ts \<Rightarrow>
                 (case aux_MessageLogger rawSim of
                    None \<Rightarrow> (Panicked nilDereference, sim3\<lparr>Trains := ts, MessageLogger := None\<rparr>)
                  | Some ml \<Rightarrow>
                      (Returned None,
                       sim3\<lparr>Trains := ts,
                            MessageLogger := Some (ml\<lparr>ml_simulation := True\<rparr>)\<rparr>))))"

text \<open>
  \<open>UnmarshalJSON\<close> on the simulation \<open>sim\<close>. The argument \<open>decoded\<close> is what
  \<open>json.Unmarshal(data, &rawSim)\<close> produced: the library's message or the envelope. The
  simulation is passed through and returned as the call leaves it.
\<close>

definition UnmarshalJSON ::
  "'pt externals \<Rightarrow> Simulation \<Rightarrow> string + auxSim \<Rightarrow> 'pt outcome \<times> Simulation" where
  "UnmarshalJSON ext sim decoded =
     (case decoded of
        Inl err \<Rightarrow> (Returned (Some (DecodeSimulationError err)), sim)
      | Inr rawSim \<Rightarrow>
          (case trackItemsLoop ext (aux_TrackItems rawSim)
                  (sim\<lparr>TrackItems := Map.empty, Places := Map.empty\<rparr>) of
             (Some err, sim1) \<Rightarrow> (Returned (Some err), sim1)
           | (None, sim1) \<Rightarrow>
               (case checkTrackItemsLinks ext sim1 of
                  Some err \<Rightarrow> (Returned (Some err), sim1)
                | None \<Rightarrow> decodeRest ext rawSim sim1)))"

section \<open>The clock\<close>

text \<open>
  The process around a simulation: the package's \<open>logger\<close> variable (nil until
  \<open>InitializeLogger\<close> has run; the lines logged so far otherwise), how many times the
  clock loop was launched, and the events handed to a sender goroutine of \<open>sendEvent\<close>,
  in the order they were handed over.
\<close>

record World =
  w_sim :: Simulation
  logger :: "string list option"
  launched :: nat
  senders :: "Event list"

definition InitializeLogger :: "string list option \<Rightarrow> World \<Rightarrow> string + World" where
  "InitializeLogger parentLogger w =
     (case parentLogger of
        None \<Rightarrow> Inl nilDereference
      | Some ls \<Rightarrow> Inr (w\<lparr>logger := Some ls\<rparr>))"

text \<open>
  \<open>Initialize\<close>: \<open>addMessage\<close> is declared outside simulation.go and appends the notice
  to the message log.
\<close>

definition Initialize :: "Simulation \<Rightarrow> string + Simulation" where
  "Initialize sim =
     (case MessageLogger sim of
        None \<Rightarrow> Inl nilDereference
      | Some ml \<Rightarrow>
          Inr (sim\<lparr>MessageLogger := Some (ml\<lparr>Messages := Messages ml @ [''Simulation initializing'']\<rparr>),
                   EventChan := Some (),
                   stopChan := Some ()\<rparr>))"

definition NewTicker :: "Duration \<Rightarrow> Ticker" where
  "NewTicker d = \<lparr>period = d, ticking = True\<rparr>"

text \<open>
  \<open>Start\<close>: \<open>Inl\<close> is a panic with its message. Calling \<open>Info\<close> on the nil logger is a nil
  dereference.
\<close>

definition Start :: "World \<Rightarrow> string + World" where
  "Start w =
     (if stopChan (w_sim w) = None \<or> EventChan (w_sim w) = None then
        Inl ''You must call Initialize before starting the simulation''
      else
        (let w1 = w\<lparr>w_sim := (w_sim w)\<lparr>clockTicker := Some (NewTicker timeStep)\<rparr>\<rparr>;
             w2 = w1\<lparr>launched := launched w1 + 1\<rparr>
         in
           case logger w2 of
             None \<Rightarrow> Inl nilDereference
           | Some ls \<Rightarrow> Inr (w2\<lparr>logger := Some (ls @ [''Simulation started''])\<rparr>)))"

definition sendEvent :: "Event \<Rightarrow> World \<Rightarrow> World" where
  "sendEvent evt w = w\<lparr>senders := senders w @ [evt]\<rparr>"

definition increaseTime :: "Duration \<Rightarrow> Simulation \<Rightarrow> Simulation" where
  "increaseTime step sim =
     sim\<lparr>Options := (Options sim)\<lparr>CurrentTime := Add (CurrentTime (Options sim)) step\<rparr>\<rparr>"

text \<open>
  The timer case of the select in \<open>run\<close>.
\<close>

definition clockTickCase :: "World \<Rightarrow> World" where
  "clockTickCase w =
     (let w1 = w\<lparr>w_sim := increaseTime timeStep (w_sim w)\<rparr> in
      sendEvent (Event ClockEvent (CurrentTime (Options (w_sim w1)))) w1)"

text \<open>
  \<open>run\<close> over the signals its select receives, in order. It returns the world and
  whether the loop returned (\<open>True\<close>) or is waiting in the select for a signal that has
  not come (\<open>False\<close>). The select reads the ticker's channel, so a nil ticker panics.
\<close>

datatype signal = StopSignal | ClockTick

fun run :: "World \<Rightarrow> signal list \<Rightarrow> string + (World \<times> bool)" where
  "run w [] = (if clockTicker (w_sim w) = None then Inl nilDereference else Inr (w, False))"
| "run w (StopSignal # rest) =
     (case clockTicker (w_sim w) of
        None \<Rightarrow> Inl nilDereference
      | Some tk \<Rightarrow>
          (case logger w of
             None \<Rightarrow> Inl nilDereference
           | Some ls \<Rightarrow>
               Inr (w\<lparr>w_sim := (w_sim w)\<lparr>clockTicker := Some (tk\<lparr>ticking := False\<rparr>)\<rparr>,
                      logger := Some (ls @ [''Simulation paused''])\<rparr>, True)))"
| "run w (ClockTick # rest) =
     (if clockTicker (w_sim w) = None then Inl nilDereference
      else run (clockTickCase w) rest)"

section \<open>The statements of the specification\<close>

text \<open>
  The per-kind link rule in the specification's words: the connections each kind needs
  resolved, in the order they are checked. Places, platforms and texts need none; points
  need the reverse link, then the next link, then the previous link; lines, invisible
  links and signals need the next link, then the previous link; end items need the
  previous link.
\<close>

datatype connection = ReverseLink | NextLink | PreviousLink

fun requiredLinks :: "tiType \<Rightarrow> connection list" where
  "requiredLinks place = []"
| "requiredLinks platformItem = []"
| "requiredLinks textItem = []"
| "requiredLinks pointsItem = [ReverseLink, NextLink, PreviousLink]"
| "requiredLinks lineItem = [NextLink, PreviousLink]"
| "requiredLinks invisibleLinkItem = [NextLink, PreviousLink]"
| "requiredLinks signalItem = [NextLink, PreviousLink]"
| "requiredLinks endItem = [PreviousLink]"

fun resolved :: "'pt externals \<Rightarrow> Simulation \<Rightarrow> TrackItem \<Rightarrow> connection \<Rightarrow> bool" where
  "resolved ext sim ti ReverseLink = (ReverseItem ext sim ti \<noteq> None)"
| "resolved ext sim ti NextLink = (NextItem ext sim ti \<noteq> None)"
| "resolved ext sim ti PreviousLink = (PreviousItem ext sim ti \<noteq> None)"

fun pointOf :: "'pt externals \<Rightarrow> TrackItem \<Rightarrow> connection \<Rightarrow> 'pt" where
  "pointOf ext ti ReverseLink = Reverse ext ti"
| "pointOf ext ti NextLink = End ext ti"
| "pointOf ext ti PreviousLink = Origin ext ti"

definition linkRule :: "'pt externals \<Rightarrow> Simulation \<Rightarrow> TrackItem \<Rightarrow> bool" where
  "linkRule ext sim ti = list_all (resolved ext sim ti) (requiredLinks (ti_Type ti))"

definition firstUnresolved :: "'pt externals \<Rightarrow> Simulation \<Rightarrow> TrackItem \<Rightarrow> connection option" where
  "firstUnresolved ext sim ti =
     find (\<lambda>c. \<not> resolved ext sim ti c) (requiredLinks (ti_Type ti))"

text \<open>
  The eight discriminators the decoder recognizes.
\<close>

definition recognizedTypes :: "string list" where
  "recognizedTypes = map fst itemKinds @ [''Place'']"

text \<open>
  Every stored track item carries the id it is stored under.
\<close>

definition idsAgree :: "(int \<rightharpoonup> TrackItem) \<Rightarrow> bool" where
  "idsAgree m = (\<forall>n ti. m n = Some ti \<longrightarrow> ti_ID ti = n)"

section \<open>A concrete scenario\<close>

text \<open>
  One instance of what simulation.go leaves to other files, to run the definitions on: a
  track-item struct rejects a \<open>name\<close> member that is a number and otherwise keeps the
  object it was decoded from; a place reads its \<open>placeCode\<close> member; a link is resolved when
  the member naming it holds the id of a stored item; a range visits the ids 1, 2, 3 in
  this order; connection points are named; \<open>sort.Slice\<close> is an insertion sort.
\<close>

definition memberOf :: "string \<Rightarrow> json \<Rightarrow> json option" where
  "memberOf name j = (case j of JObject kvs \<Rightarrow> map_of (rev kvs) name | _ \<Rightarrow> None)"

definition sampleUnmarshalTI :: "tiType \<Rightarrow> json \<Rightarrow> string + TrackItem" where
  "sampleUnmarshalTI kind j =
     (case j of
        JObject kvs \<Rightarrow>
          (case memberOf ''name'' j of
             Some (JNumber x) \<Rightarrow>
               Inl ''json: cannot unmarshal number into Go struct field .name of type string''
           | _ \<Rightarrow> Inr \<lparr>ti_Type = kind, ti_ID = 0, ti_simulation = False, ti_content = j\<rparr>)
      | _ \<Rightarrow> Inl ''json: cannot unmarshal into Go value'')"

definition sampleUnmarshalPlace :: "json \<Rightarrow> string + Place" where
  "sampleUnmarshalPlace j =
     (case memberOf ''placeCode'' j of
        Some (JString code) \<Rightarrow> Inr \<lparr>PlaceCode = code, place_content = j\<rparr>
      | Some _ \<Rightarrow> Inl ''json: cannot unmarshal into Go struct field .placeCode of type string''
      | None \<Rightarrow> Inr \<lparr>PlaceCode = [], place_content = j\<rparr>)"

definition sampleLink :: "string \<Rightarrow> Simulation \<Rightarrow> TrackItem \<Rightarrow> TrackItem option" where
  "sampleLink field sim ti =
     (case memberOf field (ti_content ti) of
        Some (JNumber x) \<Rightarrow> (case Atoi x of Inr n \<Rightarrow> TrackItems sim n | Inl e \<Rightarrow> None)
      | _ \<Rightarrow> None)"

fun sampleInsert :: "(Train \<Rightarrow> Train \<Rightarrow> string + bool) \<Rightarrow> Train \<Rightarrow> Train list \<Rightarrow> string + Train list" where
  "sampleInsert lt t [] = Inr [t]"
| "sampleInsert lt t (u # us) =
     (case lt t u of
        Inl p \<Rightarrow> Inl p
      | Inr True \<Rightarrow> Inr (t # u # us)
      | Inr False \<Rightarrow> (case sampleInsert lt t us of Inl p \<Rightarrow> Inl p | Inr r \<Rightarrow> Inr (u # r)))"

fun sampleSort :: "(Train \<Rightarrow> Train \<Rightarrow> string + bool) \<Rightarrow> Train list \<Rightarrow> string + Train list" where
  "sampleSort lt [] = Inr []"
| "sampleSort lt (t # ts) =
     (case sampleSort lt ts of Inl p \<Rightarrow> Inl p | Inr r \<Rightarrow> sampleInsert lt t r)"

definition sampleExt :: "string externals" where
  "sampleExt =
     \<lparr>unmarshalTI = sampleUnmarshalTI,
      unmarshalPlace = sampleUnmarshalPlace,
      rangeItems = (\<lambda>m. List.map_filter m [1, 2, 3]),
      NextItem = sampleLink ''nextTiId'',
      PreviousItem = sampleLink ''previousTiId'',
      ReverseItem = sampleLink ''reverseTiId'',
      Origin = (\<lambda>ti. ''origin''),
      End = (\<lambda>ti. ''end''),
      Reverse = (\<lambda>ti. ''reverse''),
      sortSlice = sampleSort\<rparr>"

definition newSimulation :: Simulation where
  "newSimulation =
     \<lparr>SignalLib = JNull, TrackItems = Map.empty, Places = Map.empty,
      Options = \<lparr>CurrentTime = 0, options_content = JNull\<rparr>,
      Routes = Map.empty, TrainTypes = Map.empty, Services = Map.empty, Trains = [],
      MessageLogger = None, EventChan = None, clockTicker = None, stopChan = None\<rparr>"

definition sampleScenario :: auxSim where
  "sampleScenario =
     \<lparr>aux_TrackItems =
        [(''1'', JObject [(''__type__'', JString ''EndItem''), (''previousTiId'', JNumber ''2'')]),
         (''2'', JObject [(''__type__'', JString ''LineItem''), (''previousTiId'', JNumber ''1''),
                          (''nextTiId'', JNumber ''3'')]),
         (''STN'', JObject [(''__type__'', JString ''Place''), (''placeCode'', JString ''STN'')]),
         (''3'', JObject [(''__type__'', JString ''EndItem''), (''previousTiId'', JNumber ''2'')])],
      aux_Options = \<lparr>CurrentTime = 0, options_content = JNull\<rparr>,
      aux_SignalLib = JNull,
      aux_Routes = [(''1'', \<lparr>route_simulation = False, route_initialized = False, route_content = JNull\<rparr>)],
      aux_TrainTypes = Map.empty,
      aux_Services =
        [''ICE1'' \<mapsto> \<lparr>Lines = [], service_simulation = False\<rparr>,
         ''REG1'' \<mapsto> \<lparr>Lines = [\<lparr>ScheduledDepartureTime = 8, line_content = JNull\<rparr>], service_simulation = False\<rparr>],
      aux_Trains = [\<lparr>ServiceCode = ''ICE1'', train_simulation = False\<rparr>,
                    \<lparr>ServiceCode = ''REG1'', train_simulation = False\<rparr>],
      aux_MessageLogger = Some \<lparr>ml_simulation = False, Messages = []\<rparr>\<rparr>"

definition sampleItem :: "tiType \<Rightarrow> int \<Rightarrow> (string \<times> json) list \<Rightarrow> TrackItem" where
  "sampleItem kind n members =
     \<lparr>ti_Type = kind, ti_ID = n, ti_simulation = True, ti_content = JObject members\<rparr>"

text \<open>
  A network whose points (item 2) have no reverse link and a next link to an item
  that does not exist, and whose line (item 3) has no next link.
\<close>

definition brokenNetwork :: Simulation where
  "brokenNetwork =
     newSimulation
       \<lparr>TrackItems :=
          [1 \<mapsto> sampleItem endItem 1 [(''previousTiId'', JNumber ''2'')],
           2 \<mapsto> sampleItem pointsItem 2 [(''previousTiId'', JNumber ''1''), (''nextTiId'', JNumber ''7'')],
           3 \<mapsto> sampleItem lineItem 3 [(''previousTiId'', JNumber ''2'')]]\<rparr>"

text \<open>
  Services without a line stop (ICE1, ICE2) and with a first stop at 08:00 (REG1) and at
  07:00 (REG2), in nanoseconds since midnight.
\<close>

definition timetable :: Simulation where
  "timetable =
     newSimulation
       \<lparr>Services :=
          [''ICE1'' \<mapsto> \<lparr>Lines = [], service_simulation = True\<rparr>,
           ''ICE2'' \<mapsto> \<lparr>Lines = [], service_simulation = True\<rparr>,
           ''REG1'' \<mapsto> \<lparr>Lines = [\<lparr>ScheduledDepartureTime = 28800000000000, line_content = JNull\<rparr>],
                          service_simulation = True\<rparr>,
           ''REG2'' \<mapsto> \<lparr>Lines = [\<lparr>ScheduledDepartureTime = 25200000000000, line_content = JNull\<rparr>],
                          service_simulation = True\<rparr>]\<rparr>"

definition trainOf :: "string \<Rightarrow> Train" where
  "trainOf code = \<lparr>ServiceCode = code, train_simulation = True\<rparr>"

text \<open>
  A scenario whose second track-item entry has a discriminator the decoder does not
  know, and one whose second entry has no discriminator.
\<close>

definition unknownTypeScenario :: auxSim where
  "unknownTypeScenario =
     sampleScenario
       \<lparr>aux_TrackItems :=
          [(''5'', JObject [(''__type__'', JString ''TextItem'')]),
           (''9'', JObject [(''__type__'', JString ''BridgeItem'')])]\<rparr>"

definition missingTypeScenario :: auxSim where
  "missingTypeScenario =
     sampleScenario
       \<lparr>aux_TrackItems :=
          [(''5'', JObject [(''__type__'', JString ''TextItem'')]),
           (''9'', JObject [(''name'', JString ''siding'')])]\<rparr>"

text \<open>
  A scenario whose second route has a key that is not a number; one whose track-item
  keys \<open>1\<close> and \<open>01\<close> differ as strings and denote the same integer; and one whose
  first track item has a key that is not a number and whose second has a member its
  struct rejects.
\<close>

definition sampleRoute :: Route where
  "sampleRoute = \<lparr>route_simulation = False, route_initialized = False, route_content = JNull\<rparr>"

definition badRouteScenario :: auxSim where
  "badRouteScenario =
     sampleScenario\<lparr>aux_Routes := [(''1'', sampleRoute), (''x2'', sampleRoute), (''3'', sampleRoute)]\<rparr>"

definition duplicateIdScenario :: auxSim where
  "duplicateIdScenario =
     sampleScenario
       \<lparr>aux_TrackItems :=
          [(''1'', JObject [(''__type__'', JString ''TextItem''), (''name'', JString ''A'')]),
           (''01'', JObject [(''__type__'', JString ''TextItem''), (''name'', JString ''B'')])]\<rparr>"

definition skippedItemsScenario :: auxSim where
  "skippedItemsScenario =
     sampleScenario
       \<lparr>aux_TrackItems :=
          [(''abc'', JObject [(''__type__'', JString ''LineItem'')]),
           (''7'', JObject [(''__type__'', JString ''SignalItem''), (''name'', JNumber ''12'')])]\<rparr>"

text \<open>
  Worlds: before \<open>Initialize\<close>, after \<open>Initialize\<close> with and without the package
  logger, and with the clock running.
\<close>

definition freshWorld :: World where
  "freshWorld = \<lparr>w_sim = newSimulation, logger = Some [], launched = 0, senders = []\<rparr>"

definition initializedWorld :: World where
  "initializedWorld =
     freshWorld\<lparr>w_sim := newSimulation\<lparr>EventChan := Some (), stopChan := Some ()\<rparr>\<rparr>"

definition noLoggerWorld :: World where
  "noLoggerWorld = initializedWorld\<lparr>logger := None\<rparr>"

definition runningWorld :: World where
  "runningWorld =
     initializedWorld
       \<lparr>w_sim := (w_sim initializedWorld)\<lparr>clockTicker := Some (NewTicker timeStep)\<rparr>,
        launched := 1\<rparr>"

section \<open>Evaluation of the concrete scenario\<close>

lemmas sample_defs = sampleScenario_def newSimulation_def sampleExt_def sampleLink_def
  sampleUnmarshalPlace_def sampleUnmarshalTI_def memberOf_def
  UnmarshalJSON_def decodeRest_def trackItemStep_def unmarshalItem_def
  checkTrackItemsLinks_def checkItem_def checkNext_def checkPrevious_def
  Atoi_def Trim_def route_initialize_def route_setSimulation_def
  trainLess_def train_Service_def Let_def List.map_filter_def Sub_def minDuration_def
  maxDuration_def sampleItem_def brokenNetwork_def linkRule_def firstUnresolved_def

section \<open>Network validation\<close>

lemma checkItem_None_iff: "checkItem ext sim ti = None \<longleftrightarrow> linkRule ext sim ti"
  by (cases "ti_Type ti") (simp_all add: checkItem_def checkNext_def checkPrevious_def linkRule_def)

lemma checkItem_violation:
  "\<not> linkRule ext sim ti \<Longrightarrow>
     \<exists>c. firstUnresolved ext sim ti = Some c \<and>
         checkItem ext sim ti = Some (ItemNotLinkedAtError ti (pointOf ext ti c))"
  by (cases "ti_Type ti")
     (auto simp add: checkItem_def checkNext_def checkPrevious_def linkRule_def firstUnresolved_def)

lemma checkItems_None_iff:
  "checkItems ext sim tis = None \<longleftrightarrow> (\<forall>ti\<in>set tis. linkRule ext sim ti)"
proof (induction tis)
  case Nil
  show ?case by simp
next
  case (Cons t tis)
  show ?case
  proof (cases "checkItem ext sim t")
    case None
    with Cons show ?thesis using checkItem_None_iff [of ext sim t] by simp
  next
    case (Some err)
    then show ?thesis using checkItem_None_iff [of ext sim t] by simp
  qed
qed

lemma checkItems_first_violation:
  "\<forall>t\<in>set pre. linkRule ext sim t \<Longrightarrow>
     checkItems ext sim (pre @ ti # post) =
       (case checkItem ext sim ti of Some err \<Rightarrow> Some err | None \<Rightarrow> checkItems ext sim post)"
proof (induction pre)
  case Nil
  show ?case by simp
next
  case (Cons p pre)
  then have "checkItem ext sim p = None" by (simp add: checkItem_None_iff)
  with Cons show ?case by simp
qed

text \<open>
  C2: \<open>checkTrackItemsLinks\<close> returns nil exactly when every track item satisfies the
  link rule of its kind (the range visiting exactly the items of the map). When the
  range reaches a first item that violates its rule, after items that all satisfy
  theirs, the result is the link-validation error naming that item and the connection
  point of its first unresolved connection in checking order: reverse before next for
  points, next before previous for all.
\<close>

theorem checkTrackItemsLinks_rule:
  assumes visits: "set (rangeItems ext (TrackItems sim)) = ran (TrackItems sim)"
  shows "(checkTrackItemsLinks ext sim = None \<longleftrightarrow>
            (\<forall>ti\<in>ran (TrackItems sim). linkRule ext sim ti)) \<and>
         (\<forall>pre ti post.
            rangeItems ext (TrackItems sim) = pre @ ti # post \<and>
            (\<forall>t\<in>set pre. linkRule ext sim t) \<and> \<not> linkRule ext sim ti \<longrightarrow>
            (\<exists>c. firstUnresolved ext sim ti = Some c \<and>
                 checkTrackItemsLinks ext sim =
                   Some (ItemNotLinkedAtError ti (pointOf ext ti c))))"
proof (intro conjI allI impI)
  show "checkTrackItemsLinks ext sim = None \<longleftrightarrow> (\<forall>ti\<in>ran (TrackItems sim). linkRule ext sim ti)"
    unfolding checkTrackItemsLinks_def checkItems_None_iff visits ..
next
  fix pre ti post
  assume h: "rangeItems ext (TrackItems sim) = pre @ ti # post \<and>
            (\<forall>t\<in>set pre. linkRule ext sim t) \<and> \<not> linkRule ext sim ti"
  then obtain c where c: "firstUnresolved ext sim ti = Some c"
      "checkItem ext sim ti = Some (ItemNotLinkedAtError ti (pointOf ext ti c))"
    using checkItem_violation by blast
  from h have "checkTrackItemsLinks ext sim =
       (case checkItem ext sim ti of Some err \<Rightarrow> Some err | None \<Rightarrow> checkItems ext sim post)"
    by (simp add: checkTrackItemsLinks_def checkItems_first_violation)
  with c show "\<exists>c. firstUnresolved ext sim ti = Some c \<and>
                 checkTrackItemsLinks ext sim = Some (ItemNotLinkedAtError ti (pointOf ext ti c))"
    by simp
qed

theorem checkTrackItemsLinks_rule_witness:
  "checkTrackItemsLinks sampleExt brokenNetwork =
     Some (ItemNotLinkedAtError
             (sampleItem pointsItem 2 [(''previousTiId'', JNumber ''1''), (''nextTiId'', JNumber ''7'')])
             ''reverse'') \<and>
   \<not> linkRule sampleExt brokenNetwork
       (sampleItem lineItem 3 [(''previousTiId'', JNumber ''2'')])"
proof -
  let ?i1 = "sampleItem endItem 1 [(''previousTiId'', JNumber ''2'')]"
  let ?i2 = "sampleItem pointsItem 2 [(''previousTiId'', JNumber ''1''), (''nextTiId'', JNumber ''7'')]"
  let ?i3 = "sampleItem lineItem 3 [(''previousTiId'', JNumber ''2'')]"
  have items: "TrackItems brokenNetwork = [1 \<mapsto> ?i1, 2 \<mapsto> ?i2, 3 \<mapsto> ?i3]"
    by (simp add: brokenNetwork_def)
  have order: "rangeItems sampleExt (TrackItems brokenNetwork) = [?i1] @ ?i2 # [?i3]"
    by (simp add: items sampleExt_def List.map_filter_def)
  have visits: "set (rangeItems sampleExt (TrackItems brokenNetwork)) = ran (TrackItems brokenNetwork)"
    unfolding order by (auto simp add: items)
  have good: "\<forall>t\<in>set [?i1]. linkRule sampleExt brokenNetwork t"
    by (simp add: sample_defs)
  have bad: "\<not> linkRule sampleExt brokenNetwork ?i2"
    by (simp add: sample_defs)
  have bad3: "\<not> linkRule sampleExt brokenNetwork ?i3"
    by (simp add: sample_defs)
  have first: "firstUnresolved sampleExt brokenNetwork ?i2 = Some ReverseLink"
    by (simp add: sample_defs)
  from checkTrackItemsLinks_rule [OF visits] order good bad
  obtain c where "firstUnresolved sampleExt brokenNetwork ?i2 = Some c"
    and "checkTrackItemsLinks sampleExt brokenNetwork =
           Some (ItemNotLinkedAtError ?i2 (pointOf sampleExt ?i2 c))"
    by blast
  with first bad3 show ?thesis by (simp add: sampleExt_def)
qed

section \<open>The loop over the track items\<close>

lemma trackItemsLoop_append:
  "trackItemsLoop ext (pre @ rest) sim =
     (case trackItemsLoop ext pre sim of
        (Some err, sim') \<Rightarrow> (Some err, sim')
      | (None, sim') \<Rightarrow> trackItemsLoop ext rest sim')"
  by (induction pre arbitrary: sim) (auto split: prod.splits option.splits)

lemma trackItemsLoop_aborts:
  assumes "entry \<in> set entries" and "\<And>s. fst (trackItemStep ext entry s) \<noteq> None"
  shows "fst (trackItemsLoop ext entries sim) \<noteq> None"
  using assms(1)
proof (induction entries arbitrary: sim)
  case Nil
  then show ?case by simp
next
  case (Cons e es)
  show ?case
  proof (cases "trackItemStep ext e sim")
    case (Pair r s')
    show ?thesis
    proof (cases r)
      case None
      with Pair assms(2) [of sim] have "e \<noteq> entry" by auto
      with Cons.prems have "entry \<in> set es" by simp
      with Cons.IH [of s'] Pair None show ?thesis by simp
    next
      case (Some err)
      with Pair show ?thesis by simp
    qed
  qed
qed

lemma loop_first_error:
  assumes "fst (trackItemsLoop ext pre sim) = None"
    and "trackItemStep ext entry (snd (trackItemsLoop ext pre sim)) = (Some err, s')"
  shows "trackItemsLoop ext (pre @ entry # post) sim = (Some err, s')"
proof (cases "trackItemsLoop ext pre sim")
  case (Pair r s1)
  with assms show ?thesis by (simp add: trackItemsLoop_append)
qed

lemma UnmarshalJSON_track_error:
  "trackItemsLoop ext (aux_TrackItems rawSim) (sim\<lparr>TrackItems := Map.empty, Places := Map.empty\<rparr>)
     = (Some err, sim') \<Longrightarrow>
   UnmarshalJSON ext sim (Inr rawSim) = (Returned (Some err), sim')"
  by (simp add: UnmarshalJSON_def)

text \<open>
  An entry whose iteration returns an error in every state makes the decode return an
  error; it is that entry's error when no entry visited before it returned one.
\<close>

lemma failing_entry_aborts:
  assumes step: "\<And>s. trackItemStep ext entry s = (Some err, s)"
  shows "(entry \<in> set (aux_TrackItems rawSim) \<longrightarrow>
            (\<exists>e. fst (UnmarshalJSON ext sim (Inr rawSim)) = Returned (Some e))) \<and>
         (aux_TrackItems rawSim = pre @ entry # post \<and>
          fst (trackItemsLoop ext pre (sim\<lparr>TrackItems := Map.empty, Places := Map.empty\<rparr>)) = None \<longrightarrow>
            fst (UnmarshalJSON ext sim (Inr rawSim)) = Returned (Some err))"
proof (intro conjI impI)
  let ?s0 = "sim\<lparr>TrackItems := Map.empty, Places := Map.empty\<rparr>"
  {
    assume "entry \<in> set (aux_TrackItems rawSim)"
    then have "fst (trackItemsLoop ext (aux_TrackItems rawSim) ?s0) \<noteq> None"
      by (rule trackItemsLoop_aborts) (simp add: step)
    then obtain e sim' where "trackItemsLoop ext (aux_TrackItems rawSim) ?s0 = (Some e, sim')"
      by (cases "trackItemsLoop ext (aux_TrackItems rawSim) ?s0") auto
    then have "UnmarshalJSON ext sim (Inr rawSim) = (Returned (Some e), sim')"
      by (rule UnmarshalJSON_track_error)
    then show "\<exists>e. fst (UnmarshalJSON ext sim (Inr rawSim)) = Returned (Some e)"
      by simp
  }
  {
    assume h: "aux_TrackItems rawSim = pre @ entry # post \<and>
               fst (trackItemsLoop ext pre ?s0) = None"
    then have "trackItemsLoop ext (aux_TrackItems rawSim) ?s0 =
                 (Some err, snd (trackItemsLoop ext pre ?s0))"
      using loop_first_error [OF _ step] by simp
    then have "UnmarshalJSON ext sim (Inr rawSim) =
                 (Returned (Some err), snd (trackItemsLoop ext pre ?s0))"
      by (rule UnmarshalJSON_track_error)
    then show "fst (UnmarshalJSON ext sim (Inr rawSim)) = Returned (Some err)"
      by simp
  }
qed

lemma unknown_type_step:
  assumes "unmarshalAuxItem tiString = Inr rawItem"
    and "\<forall>name\<in>set recognizedTypes. rawItem ''__type__'' \<noteq> Some (JString name)"
  shows "trackItemStep ext (tiId, tiString) s =
           (Some (UnknownTrackItemTypeError (rawItem ''__type__'')), s)"
  using assms by (simp add: trackItemStep_def recognizedTypes_def itemKinds_def)

text \<open>
  C4: an entry whose discriminator is none of the eight recognized values makes its
  iteration return the unknown-type error carrying that discriminator; a decode of a
  document holding such an entry returns an error, and that error is this entry's
  unknown-type error when no entry visited before it has stopped the decode.
\<close>

theorem unknown_type_aborts:
  assumes "unmarshalAuxItem tiString = Inr rawItem"
    and "\<forall>name\<in>set recognizedTypes. rawItem ''__type__'' \<noteq> Some (JString name)"
  shows "trackItemStep ext (tiId, tiString) s =
           (Some (UnknownTrackItemTypeError (rawItem ''__type__'')), s) \<and>
         ((tiId, tiString) \<in> set (aux_TrackItems rawSim) \<longrightarrow>
            (\<exists>e. fst (UnmarshalJSON ext sim (Inr rawSim)) = Returned (Some e))) \<and>
         (aux_TrackItems rawSim = pre @ (tiId, tiString) # post \<and>
          fst (trackItemsLoop ext pre (sim\<lparr>TrackItems := Map.empty, Places := Map.empty\<rparr>)) = None \<longrightarrow>
            fst (UnmarshalJSON ext sim (Inr rawSim)) =
              Returned (Some (UnknownTrackItemTypeError (rawItem ''__type__''))))"
proof -
  have step: "trackItemStep ext (tiId, tiString) s =
                (Some (UnknownTrackItemTypeError (rawItem ''__type__'')), s)" for s
    using assms by (rule unknown_type_step)
  from step [of s] failing_entry_aborts [where rawSim = rawSim and sim = sim and pre = pre and post = post, OF step]
  show ?thesis by simp
qed

theorem unknown_type_aborts_witness:
  "fst (UnmarshalJSON sampleExt newSimulation (Inr unknownTypeScenario)) =
     Returned (Some (UnknownTrackItemTypeError (Some (JString ''BridgeItem''))))"
proof -
  let ?raw = "JObject [(''__type__'', JString ''BridgeItem'')]"
  let ?rawItem = "map_of (rev [(''__type__'', JString ''BridgeItem'')])"
  let ?pre = "[(''5'', JObject [(''__type__'', JString ''TextItem'')])]"
  have a: "unmarshalAuxItem ?raw = Inr ?rawItem" by simp
  have b: "\<forall>name\<in>set recognizedTypes. ?rawItem ''__type__'' \<noteq> Some (JString name)"
    by (simp add: recognizedTypes_def itemKinds_def)
  have c: "aux_TrackItems unknownTypeScenario = ?pre @ (''9'', ?raw) # []"
    by (simp add: unknownTypeScenario_def)
  have d: "fst (trackItemsLoop sampleExt ?pre
                  (newSimulation\<lparr>TrackItems := Map.empty, Places := Map.empty\<rparr>)) = None"
    by (simp add: sample_defs)
  from unknown_type_aborts [OF a b, of sampleExt "''9''" newSimulation unknownTypeScenario
      newSimulation ?pre "[]"] c d
  show ?thesis by simp
qed

text \<open>
  C9: an entry that is an object without a \<open>__type__\<close> member takes the default
  branch: its iteration returns the unknown-type error, with an empty discriminator, and
  the decode returns an error as for an unrecognized discriminator.
\<close>

theorem missing_type_aborts:
  assumes "''__type__'' \<notin> fst ` set members"
  shows "trackItemStep ext (tiId, JObject members) s =
           (Some (UnknownTrackItemTypeError None), s) \<and>
         ((tiId, JObject members) \<in> set (aux_TrackItems rawSim) \<longrightarrow>
            (\<exists>e. fst (UnmarshalJSON ext sim (Inr rawSim)) = Returned (Some e))) \<and>
         (aux_TrackItems rawSim = pre @ (tiId, JObject members) # post \<and>
          fst (trackItemsLoop ext pre (sim\<lparr>TrackItems := Map.empty, Places := Map.empty\<rparr>)) = None \<longrightarrow>
            fst (UnmarshalJSON ext sim (Inr rawSim)) =
              Returned (Some (UnknownTrackItemTypeError None)))"
proof -
  from assms have none: "map_of (rev members) ''__type__'' = None"
    by (simp add: map_of_eq_None_iff)
  have step: "trackItemStep ext (tiId, JObject members) s =
                (Some (UnknownTrackItemTypeError None), s)" for s
    using unknown_type_step [of "JObject members" "map_of (rev members)" ext tiId s] none
    by simp
  from step [of s] failing_entry_aborts [where rawSim = rawSim and sim = sim and pre = pre and post = post, OF step]
  show ?thesis by simp
qed

theorem missing_type_aborts_witness:
  "fst (UnmarshalJSON sampleExt newSimulation (Inr missingTypeScenario)) =
     Returned (Some (UnknownTrackItemTypeError None))"
proof -
  let ?pre = "[(''5'', JObject [(''__type__'', JString ''TextItem'')])]"
  have a: "''__type__'' \<notin> fst ` set [(''name'', JString ''siding'')]" by simp
  have c: "aux_TrackItems missingTypeScenario =
             ?pre @ (''9'', JObject [(''name'', JString ''siding'')]) # []"
    by (simp add: missingTypeScenario_def)
  have d: "fst (trackItemsLoop sampleExt ?pre
                  (newSimulation\<lparr>TrackItems := Map.empty, Places := Map.empty\<rparr>)) = None"
    by (simp add: sample_defs)
  from missing_type_aborts [OF a, of sampleExt "''9''" newSimulation missingTypeScenario
      newSimulation ?pre "[]"] c d
  show ?thesis by simp
qed

section \<open>Train ordering\<close>

lemma Sub_negative_iff: "Sub t u < 0 \<longleftrightarrow> t < u"
  by (simp add: Sub_def minDuration_def maxDuration_def)

text \<open>
  C3: the comparator, for trains A and B whose services exist. Both services without
  a line stop: A precedes B exactly when A's service code is smaller in the
  lexicographic order. Only A's without one: A does not precede B. Only B's without one:
  A precedes B. Otherwise: A precedes B exactly when the scheduled departure time of the
  first line stop of A's service is earlier than that of B's.
\<close>

theorem trainLess_cases:
  assumes "Services sim (ServiceCode a) = Some sa" and "Services sim (ServiceCode b) = Some sb"
  shows "(Lines sa = [] \<and> Lines sb = [] \<longrightarrow>
            trainLess sim a b = Inr (ServiceCode a < ServiceCode b)) \<and>
         (Lines sa = [] \<and> Lines sb \<noteq> [] \<longrightarrow> trainLess sim a b = Inr False) \<and>
         (Lines sa \<noteq> [] \<and> Lines sb = [] \<longrightarrow> trainLess sim a b = Inr True) \<and>
         (Lines sa \<noteq> [] \<and> Lines sb \<noteq> [] \<longrightarrow>
            trainLess sim a b =
              Inr (ScheduledDepartureTime (hd (Lines sa)) < ScheduledDepartureTime (hd (Lines sb))))"
  using assms by (simp add: trainLess_def train_Service_def Sub_negative_iff hd_conv_nth)

theorem trainLess_cases_witness:
  "trainLess timetable (trainOf ''ICE1'') (trainOf ''ICE2'') = Inr True \<and>
   trainLess timetable (trainOf ''ICE1'') (trainOf ''REG1'') = Inr False \<and>
   trainLess timetable (trainOf ''REG1'') (trainOf ''ICE1'') = Inr True \<and>
   trainLess timetable (trainOf ''REG2'') (trainOf ''REG1'') = Inr True"
proof -
  let ?ice = "\<lparr>Lines = [], service_simulation = True\<rparr>"
  let ?reg1 = "\<lparr>Lines = [\<lparr>ScheduledDepartureTime = 28800000000000, line_content = JNull\<rparr>],
                service_simulation = True\<rparr>"
  let ?reg2 = "\<lparr>Lines = [\<lparr>ScheduledDepartureTime = 25200000000000, line_content = JNull\<rparr>],
                service_simulation = True\<rparr>"
  have ice1: "Services timetable (ServiceCode (trainOf ''ICE1'')) = Some ?ice"
    by (simp add: timetable_def trainOf_def)
  have ice2: "Services timetable (ServiceCode (trainOf ''ICE2'')) = Some ?ice"
    by (simp add: timetable_def trainOf_def)
  have reg1: "Services timetable (ServiceCode (trainOf ''REG1'')) = Some ?reg1"
    by (simp add: timetable_def trainOf_def)
  have reg2: "Services timetable (ServiceCode (trainOf ''REG2'')) = Some ?reg2"
    by (simp add: timetable_def trainOf_def)
  from trainLess_cases [OF ice1 ice2] trainLess_cases [OF ice1 reg1]
    trainLess_cases [OF reg1 ice1] trainLess_cases [OF reg2 reg1]
  show ?thesis by (simp add: trainOf_def)
qed

section \<open>The clock\<close>

text \<open>
  C6: on a timer tick, \<open>increaseTime\<close> with the fixed step changes the simulation
  only in its current time, which grows by 500 milliseconds; the tick then hands a
  sender a clock-tick event whose payload is the current time after the advance, and the
  loop goes on to the next signal.
\<close>

theorem clock_tick:
  "increaseTime timeStep sim =
     sim\<lparr>Options := (Options sim)\<lparr>CurrentTime := CurrentTime (Options sim) + 500 * 1000000\<rparr>\<rparr> \<and>
   clockTickCase w =
     w\<lparr>w_sim := increaseTime timeStep (w_sim w),
       senders := senders w @ [Event ClockEvent (CurrentTime (Options (w_sim w)) + 500 * 1000000)]\<rparr> \<and>
   (clockTicker (w_sim w) \<noteq> None \<longrightarrow>
      run w (ClockTick # rest) = run (clockTickCase w) rest)"
  by (simp add: increaseTime_def clockTickCase_def sendEvent_def timeStep_def Millisecond_def Add_def)

theorem clock_tick_witness:
  "run runningWorld [ClockTick] =
     Inr (runningWorld
            \<lparr>w_sim := (w_sim runningWorld)
               \<lparr>Options := \<lparr>CurrentTime = 500000000, options_content = JNull\<rparr>\<rparr>,
             senders := [Event ClockEvent 500000000]\<rparr>, False)"
proof -
  have ticker: "clockTicker (w_sim runningWorld) \<noteq> None"
    by (simp add: runningWorld_def)
  from clock_tick [of "w_sim runningWorld" runningWorld "[]"] ticker
  show ?thesis
    by (simp add: runningWorld_def initializedWorld_def freshWorld_def newSimulation_def)
qed

text \<open>
  C5 (as amended): \<open>Start\<close> with the stop channel or the event channel nil panics with
  the message of its precondition and returns nothing; with both channels allocated, as
  \<open>Initialize\<close> leaves them, and the package logger set, as \<open>InitializeLogger\<close> leaves
  it, \<open>Start\<close> does not panic.
\<close>

theorem Start_precondition:
  "(stopChan (w_sim w) = None \<or> EventChan (w_sim w) = None \<longrightarrow>
      Start w = Inl ''You must call Initialize before starting the simulation'') \<and>
   (stopChan (w_sim w) \<noteq> None \<and> EventChan (w_sim w) \<noteq> None \<and> logger w \<noteq> None \<longrightarrow>
      (\<exists>w'. Start w = Inr w')) \<and>
   (Initialize sim = Inr sim' \<longrightarrow> stopChan sim' \<noteq> None \<and> EventChan sim' \<noteq> None) \<and>
   (InitializeLogger parentLogger w = Inr w' \<longrightarrow> logger w' \<noteq> None)"
  by (auto simp add: Start_def Initialize_def InitializeLogger_def Let_def split: option.splits)

theorem Start_precondition_witness:
  "Start freshWorld = Inl ''You must call Initialize before starting the simulation'' \<and>
   Start initializedWorld =
     Inr (initializedWorld
            \<lparr>w_sim := (w_sim initializedWorld)\<lparr>clockTicker := Some (NewTicker timeStep)\<rparr>,
             launched := 1, logger := Some [''Simulation started'']\<rparr>)"
proof -
  have a: "stopChan (w_sim freshWorld) = None \<or> EventChan (w_sim freshWorld) = None"
    by (simp add: freshWorld_def newSimulation_def)
  have b: "stopChan (w_sim initializedWorld) \<noteq> None \<and> EventChan (w_sim initializedWorld) \<noteq> None \<and>
           logger initializedWorld \<noteq> None"
    by (simp add: initializedWorld_def freshWorld_def newSimulation_def)
  from Start_precondition [of freshWorld newSimulation newSimulation None freshWorld] a
  have first: "Start freshWorld = Inl ''You must call Initialize before starting the simulation''"
    by blast
  from Start_precondition [of initializedWorld newSimulation newSimulation None freshWorld] b
  obtain w' where "Start initializedWorld = Inr w'" by blast
  then have "Start initializedWorld =
     Inr (initializedWorld
            \<lparr>w_sim := (w_sim initializedWorld)\<lparr>clockTicker := Some (NewTicker timeStep)\<rparr>,
             launched := 1, logger := Some [''Simulation started'']\<rparr>)"
    by (simp add: Start_def Let_def initializedWorld_def freshWorld_def newSimulation_def)
  with first show ?thesis by simp
qed

text \<open>
  C5 as the specification states it fails in this world: both channels are allocated
  and \<open>Start\<close> panics all the same, because the package logger is nil and \<open>Start\<close>
  calls \<open>Info\<close> on it.
\<close>

theorem Start_without_logger:
  "stopChan (w_sim noLoggerWorld) \<noteq> None \<and> EventChan (w_sim noLoggerWorld) \<noteq> None \<and>
   Start noLoggerWorld = Inl nilDereference"
  by (simp add: Start_def Let_def noLoggerWorld_def initializedWorld_def freshWorld_def
      newSimulation_def)

section \<open>The loop over the routes\<close>

lemma routesLoop_valid_prefix:
  assumes "\<forall>e\<in>set pre. \<exists>n. Atoi (fst e) = Inr n"
  shows "(routesLoop (pre @ rest) s :: 'pt routesResult) =
           (case (routesLoop rest (snd (snd (routesLoop pre s :: 'pt routesResult)))
                   :: 'pt routesResult) of
              (r, objs, s') \<Rightarrow>
                (r, map (\<lambda>e. (fst e, route_initialize (route_setSimulation (snd e)))) pre @ objs, s'))"
  using assms
proof (induction pre arbitrary: s)
  case Nil
  show ?case by (simp split: prod.splits)
next
  case (Cons e pre)
  obtain num route where e: "e = (num, route)" by (cases e)
  from Cons.prems e obtain n where n: "Atoi num = Inr n" by auto
  let ?s1 = "s\<lparr>Routes := (Routes s)(n \<mapsto> route_initialize (route_setSimulation route))\<rparr>"
  from Cons.prems have "\<forall>e\<in>set pre. \<exists>n. Atoi (fst e) = Inr n" by simp
  from Cons.IH [OF this, of ?s1] e n show ?case
    by (simp add: Let_def split: prod.splits)
qed

lemma routesLoop_first_invalid:
  assumes "\<forall>e\<in>set pre. \<exists>n. Atoi (fst e) = Inr n" and "Atoi num = Inl errRoute"
  shows "(routesLoop (pre @ (num, route) # post) s :: 'pt routesResult) =
           (Some (InvalidRouteNumError num),
            map (\<lambda>e. (fst e, route_initialize (route_setSimulation (snd e)))) pre @
              (num, route_initialize (route_setSimulation route)) # post,
            snd (snd (routesLoop pre s :: 'pt routesResult)))"
  using routesLoop_valid_prefix [OF assms(1), of "(num, route) # post" s, where ?'pt = 'pt] assms(2)
  by (simp add: Let_def)

lemma UnmarshalJSON_routes_error:
  assumes "trackItemsLoop ext (aux_TrackItems rawSim)
             (sim\<lparr>TrackItems := Map.empty, Places := Map.empty\<rparr>) = (None, s1)"
    and "checkTrackItemsLinks ext s1 = None"
    and "routesLoop (aux_Routes rawSim)
           (s1\<lparr>Options := aux_Options rawSim, SignalLib := aux_SignalLib rawSim,
               Routes := Map.empty\<rparr>) = (Some err, objs, s2)"
  shows "UnmarshalJSON ext sim (Inr rawSim) = (Returned (Some err), s2)"
  using assms by (simp add: UnmarshalJSON_def decodeRest_def)

text \<open>
  C10: when the range over the routes reaches a key that does not parse, after keys
  that all parse, the loop returns the invalid-route-number error for that key, and the
  route under that key is left with its back-reference assigned and its initialization
  run, though it was not stored in the route mapping; the routes not yet visited are
  untouched. The decode, having passed the track items and the validation, returns that
  error.
\<close>

theorem invalid_route_key:
  assumes "\<forall>e\<in>set pre. \<exists>n. Atoi (fst e) = Inr n" and "Atoi num = Inl errRoute"
  shows "(routesLoop (pre @ (num, route) # post) s :: 'pt routesResult) =
           (Some (InvalidRouteNumError num),
            map (\<lambda>e. (fst e, route_initialize (route_setSimulation (snd e)))) pre @
              (num, route_initialize (route_setSimulation route)) # post,
            snd (snd (routesLoop pre s :: 'pt routesResult))) \<and>
         route_simulation (route_initialize (route_setSimulation route)) \<and>
         route_initialized (route_initialize (route_setSimulation route)) \<and>
         (aux_Routes rawSim = pre @ (num, route) # post \<and>
          trackItemsLoop ext (aux_TrackItems rawSim)
            (sim\<lparr>TrackItems := Map.empty, Places := Map.empty\<rparr>) = (None, s1) \<and>
          checkTrackItemsLinks ext s1 = None \<longrightarrow>
            fst (UnmarshalJSON ext sim (Inr rawSim)) =
              Returned (Some (InvalidRouteNumError num :: 'pt error)))"
proof (intro conjI impI)
  show loop: "(routesLoop (pre @ (num, route) # post) s :: 'pt routesResult) =
           (Some (InvalidRouteNumError num),
            map (\<lambda>e. (fst e, route_initialize (route_setSimulation (snd e)))) pre @
              (num, route_initialize (route_setSimulation route)) # post,
            snd (snd (routesLoop pre s :: 'pt routesResult)))" for s
    using assms by (rule routesLoop_first_invalid)
  show "route_simulation (route_initialize (route_setSimulation route))"
    by (simp add: route_initialize_def route_setSimulation_def)
  show "route_initialized (route_initialize (route_setSimulation route))"
    by (simp add: route_initialize_def route_setSimulation_def)
  assume h: "aux_Routes rawSim = pre @ (num, route) # post \<and>
          trackItemsLoop ext (aux_TrackItems rawSim)
            (sim\<lparr>TrackItems := Map.empty, Places := Map.empty\<rparr>) = (None, s1) \<and>
          checkTrackItemsLinks ext s1 = None"
  let ?s = "s1\<lparr>Options := aux_Options rawSim, SignalLib := aux_SignalLib rawSim,
               Routes := Map.empty\<rparr>"
  from h loop [of ?s] have
    "UnmarshalJSON ext sim (Inr rawSim) =
       (Returned (Some (InvalidRouteNumError num)),
        snd (snd (routesLoop pre ?s :: 'pt routesResult)))"
    by (intro UnmarshalJSON_routes_error) simp_all
  then show "fst (UnmarshalJSON ext sim (Inr rawSim)) =
               Returned (Some (InvalidRouteNumError num :: 'pt error))"
    by simp
qed

theorem invalid_route_key_witness:
  "fst (UnmarshalJSON sampleExt newSimulation (Inr badRouteScenario)) =
     Returned (Some (InvalidRouteNumError ''x2'')) \<and>
   (routesLoop [(''1'', sampleRoute), (''x2'', sampleRoute), (''3'', sampleRoute)] newSimulation
      :: string routesResult) =
     (Some (InvalidRouteNumError ''x2''),
      [(''1'', sampleRoute\<lparr>route_simulation := True, route_initialized := True\<rparr>),
       (''x2'', sampleRoute\<lparr>route_simulation := True, route_initialized := True\<rparr>),
       (''3'', sampleRoute)],
      newSimulation
        \<lparr>Routes := [1 \<mapsto> sampleRoute\<lparr>route_simulation := True, route_initialized := True\<rparr>]\<rparr>)"
proof -
  let ?s0 = "newSimulation\<lparr>TrackItems := Map.empty, Places := Map.empty\<rparr>"
  let ?s1 = "snd (trackItemsLoop sampleExt (aux_TrackItems badRouteScenario) ?s0)"
  have p: "\<forall>e\<in>set [(''1'', sampleRoute)]. \<exists>n. Atoi (fst e) = Inr n"
    by (simp add: Atoi_def)
  have q: "Atoi ''x2'' = Inl ErrSyntax"
    by (simp add: Atoi_def)
  have r: "aux_Routes badRouteScenario =
             [(''1'', sampleRoute)] @ (''x2'', sampleRoute) # [(''3'', sampleRoute)]"
    by (simp add: badRouteScenario_def)
  have "fst (trackItemsLoop sampleExt (aux_TrackItems badRouteScenario) ?s0) = None"
    by (simp add: badRouteScenario_def sample_defs)
  then have t: "trackItemsLoop sampleExt (aux_TrackItems badRouteScenario) ?s0 = (None, ?s1)"
    by (simp add: prod_eq_iff)
  have c: "checkTrackItemsLinks sampleExt ?s1 = None"
    by (simp add: badRouteScenario_def sample_defs)
  from invalid_route_key [OF p q, where route = sampleRoute and post = "[(''3'', sampleRoute)]"
      and s = newSimulation and rawSim = badRouteScenario and ext = sampleExt
      and sim = newSimulation and ?s1.0 = ?s1] r t c
  show ?thesis
    by (simp add: route_initialize_def route_setSimulation_def Atoi_def Let_def newSimulation_def)
qed

section \<open>The ids of the stored track items\<close>

lemma unmarshalItem_other:
  "Atoi (Trim tiId [CHR 0x22]) \<noteq> Inr n \<Longrightarrow>
     TrackItems (snd (unmarshalItem ext tiId tiString t kind s)) n = TrackItems s n"
  by (auto simp add: unmarshalItem_def split: sum.splits)

lemma unmarshalItem_Places:
  "Places (snd (unmarshalItem ext tiId tiString t kind s)) = Places s"
  by (simp add: unmarshalItem_def split: sum.splits)

lemma unmarshalItem_idsAgree:
  "idsAgree (TrackItems s) \<Longrightarrow>
     idsAgree (TrackItems (snd (unmarshalItem ext tiId tiString t kind s)))"
  by (auto simp add: unmarshalItem_def idsAgree_def split: sum.splits)

lemma trackItemStep_other:
  "Atoi (Trim tiId [CHR 0x22]) \<noteq> Inr n \<Longrightarrow>
     TrackItems (snd (trackItemStep ext (tiId, tiString) s)) n = TrackItems s n"
  by (simp add: trackItemStep_def Let_def unmarshalItem_other split: sum.splits)

lemma trackItemStep_idsAgree:
  "idsAgree (TrackItems s) \<Longrightarrow> idsAgree (TrackItems (snd (trackItemStep ext entry s)))"
  by (simp add: trackItemStep_def Let_def unmarshalItem_idsAgree split: sum.splits)

lemma trackItemsLoop_other:
  "\<forall>entry\<in>set entries. Atoi (Trim (fst entry) [CHR 0x22]) \<noteq> Inr n \<Longrightarrow>
     TrackItems (snd (trackItemsLoop ext entries s)) n = TrackItems s n"
proof (induction entries arbitrary: s)
  case Nil
  show ?case by simp
next
  case (Cons e es)
  obtain tiId tiString where e: "e = (tiId, tiString)" by (cases e)
  obtain r s1 where step: "trackItemStep ext e s = (r, s1)" by (cases "trackItemStep ext e s")
  from Cons.prems e have "TrackItems (snd (trackItemStep ext e s)) n = TrackItems s n"
    by (simp add: trackItemStep_other)
  with step have s1: "TrackItems s1 n = TrackItems s n" by simp
  show ?case
  proof (cases r)
    case None
    with step Cons.IH [of s1] Cons.prems s1 show ?thesis by simp
  next
    case (Some err)
    with step s1 show ?thesis by simp
  qed
qed

lemma trackItemsLoop_idsAgree:
  "idsAgree (TrackItems s) \<Longrightarrow> idsAgree (TrackItems (snd (trackItemsLoop ext entries s)))"
proof (induction entries arbitrary: s)
  case Nil
  then show ?case by simp
next
  case (Cons e es)
  obtain r s1 where step: "trackItemStep ext e s = (r, s1)" by (cases "trackItemStep ext e s")
  from Cons.prems have "idsAgree (TrackItems (snd (trackItemStep ext e s)))"
    by (rule trackItemStep_idsAgree)
  with step have s1: "idsAgree (TrackItems s1)" by simp
  show ?case
  proof (cases r)
    case None
    with step Cons.IH [OF s1] show ?thesis by simp
  next
    case (Some err)
    with step s1 show ?thesis by simp
  qed
qed

lemma item_entry_step:
  assumes "unmarshalAuxItem tiString = Inr rawItem"
    and "rawItem ''__type__'' = Some (JString name)"
    and "(name, kind) \<in> set itemKinds"
  shows "trackItemStep ext (tiId, tiString) s =
           (None, snd (unmarshalItem ext tiId tiString (Some (JString name)) kind s))"
  using assms(3) unfolding itemKinds_def
  by (auto simp add: trackItemStep_def assms(1,2))

lemma routesLoop_TrackItems:
  "TrackItems (snd (snd (routesLoop routes s :: 'pt routesResult))) = TrackItems s"
proof (induction routes arbitrary: s)
  case Nil
  show ?case by simp
next
  case (Cons e es)
  obtain num route where e: "e = (num, route)" by (cases e)
  show ?case
  proof (cases "Atoi num")
    case (Inl err)
    with e show ?thesis by simp
  next
    case (Inr routeNum)
    let ?s1 = "s\<lparr>Routes := (Routes s)(routeNum \<mapsto> route_initialize (route_setSimulation route))\<rparr>"
    obtain r objs s2 where loop: "(routesLoop es ?s1 :: 'pt routesResult) = (r, objs, s2)"
      by (cases "routesLoop es ?s1 :: 'pt routesResult")
    have "TrackItems (snd (snd (routesLoop es ?s1 :: 'pt routesResult))) = TrackItems ?s1"
      by (rule Cons.IH)
    with loop have "TrackItems s2 = TrackItems s" by simp
    with e Inr loop show ?thesis by (simp add: Let_def)
  qed
qed

lemma decodeRest_TrackItems:
  fixes ext :: "'pt externals"
  shows "TrackItems (snd (decodeRest ext rawSim s)) = TrackItems s"
proof -
  let ?s0 = "s\<lparr>Options := aux_Options rawSim, SignalLib := aux_SignalLib rawSim, Routes := Map.empty\<rparr>"
  obtain r objs s2 where loop: "(routesLoop (aux_Routes rawSim) ?s0 :: 'pt routesResult) = (r, objs, s2)"
    by (cases "routesLoop (aux_Routes rawSim) ?s0 :: 'pt routesResult")
  have "TrackItems (snd (snd (routesLoop (aux_Routes rawSim) ?s0 :: 'pt routesResult))) = TrackItems ?s0"
    by (rule routesLoop_TrackItems)
  with loop have "TrackItems s2 = TrackItems s" by simp
  with loop show ?thesis
    by (simp add: decodeRest_def Let_def split: option.splits sum.splits)
qed

lemma UnmarshalJSON_success:
  assumes "UnmarshalJSON ext sim (Inr rawSim) = (Returned None, sim')"
  shows "\<exists>s1. trackItemsLoop ext (aux_TrackItems rawSim)
                 (sim\<lparr>TrackItems := Map.empty, Places := Map.empty\<rparr>) = (None, s1) \<and>
              TrackItems sim' = TrackItems s1"
proof -
  let ?s0 = "sim\<lparr>TrackItems := Map.empty, Places := Map.empty\<rparr>"
  obtain r s1 where loop: "trackItemsLoop ext (aux_TrackItems rawSim) ?s0 = (r, s1)"
    by (cases "trackItemsLoop ext (aux_TrackItems rawSim) ?s0")
  from assms loop have r: "r = None"
    by (cases r) (simp_all add: UnmarshalJSON_def)
  from assms loop r have rest: "decodeRest ext rawSim s1 = (Returned None, sim')"
    by (simp add: UnmarshalJSON_def split: option.splits)
  have "TrackItems (snd (decodeRest ext rawSim s1)) = TrackItems s1"
    by (rule decodeRest_TrackItems)
  with rest have "TrackItems sim' = TrackItems s1" by simp
  with loop r show ?thesis by simp
qed

text \<open>
  C8 (as amended): after a successful decode every stored track item carries the id
  it is stored under, so no two stored items share an id; and an entry that decodes into
  a track-item variant is stored under the integer parsed from its key whenever no entry
  visited after it has a key that parses to the same integer. Keys that differ as strings
  can parse to the same integer; the entry visited later then replaces the earlier one.
\<close>

theorem stored_ids:
  assumes ok: "UnmarshalJSON ext sim (Inr rawSim) = (Returned None, sim')"
  shows "(\<forall>n ti. TrackItems sim' n = Some ti \<longrightarrow> ti_ID ti = n) \<and>
         (\<forall>pre tiId tiString post rawItem name kind ti0 n.
            aux_TrackItems rawSim = pre @ (tiId, tiString) # post \<and>
            unmarshalAuxItem tiString = Inr rawItem \<and>
            rawItem ''__type__'' = Some (JString name) \<and>
            (name, kind) \<in> set itemKinds \<and>
            unmarshalTI ext kind tiString = Inr ti0 \<and>
            Atoi (Trim tiId [CHR 0x22]) = Inr n \<and>
            (\<forall>later\<in>set post. Atoi (Trim (fst later) [CHR 0x22]) \<noteq> Inr n) \<longrightarrow>
            TrackItems sim' n = Some (ti0\<lparr>ti_simulation := True, ti_ID := n\<rparr>))"
proof -
  let ?s0 = "sim\<lparr>TrackItems := Map.empty, Places := Map.empty\<rparr>"
  from UnmarshalJSON_success [OF ok] obtain s1 where
    loop: "trackItemsLoop ext (aux_TrackItems rawSim) ?s0 = (None, s1)"
    and same: "TrackItems sim' = TrackItems s1" by blast
  have "idsAgree (TrackItems ?s0)" by (simp add: idsAgree_def)
  then have "idsAgree (TrackItems (snd (trackItemsLoop ext (aux_TrackItems rawSim) ?s0)))"
    by (rule trackItemsLoop_idsAgree)
  with loop same have ids: "\<forall>n ti. TrackItems sim' n = Some ti \<longrightarrow> ti_ID ti = n"
    by (simp add: idsAgree_def)
  have stored: "TrackItems sim' n = Some (ti0\<lparr>ti_simulation := True, ti_ID := n\<rparr>)"
    if h: "aux_TrackItems rawSim = pre @ (tiId, tiString) # post"
      "unmarshalAuxItem tiString = Inr rawItem"
      "rawItem ''__type__'' = Some (JString name)"
      "(name, kind) \<in> set itemKinds"
      "unmarshalTI ext kind tiString = Inr ti0"
      "Atoi (Trim tiId [CHR 0x22]) = Inr n"
      "\<forall>later\<in>set post. Atoi (Trim (fst later) [CHR 0x22]) \<noteq> Inr n"
    for pre tiId tiString post rawItem name kind ti0 n
  proof -
    obtain r2 s2 where pre: "trackItemsLoop ext pre ?s0 = (r2, s2)"
      by (cases "trackItemsLoop ext pre ?s0")
    from loop h(1) pre have r2: "r2 = None"
      by (cases r2) (simp_all add: trackItemsLoop_append)
    let ?s3 = "snd (unmarshalItem ext tiId tiString (Some (JString name)) kind s2)"
    have step: "trackItemStep ext (tiId, tiString) s2 = (None, ?s3)"
      using h(2,3,4) by (rule item_entry_step)
    from loop h(1) pre r2 step have post: "trackItemsLoop ext post ?s3 = (None, s1)"
      by (simp add: trackItemsLoop_append)
    have "TrackItems (snd (trackItemsLoop ext post ?s3)) n = TrackItems ?s3 n"
      using h(7) by (rule trackItemsLoop_other)
    with post have "TrackItems s1 n = TrackItems ?s3 n" by simp
    also have "\<dots> = Some (ti0\<lparr>ti_simulation := True, ti_ID := n\<rparr>)"
      using h(5,6) by (simp add: unmarshalItem_def)
    finally show ?thesis using same by simp
  qed
  from ids stored show ?thesis by blast
qed

theorem stored_ids_witness:
  "TrackItems (snd (UnmarshalJSON sampleExt newSimulation (Inr sampleScenario))) 2 =
     Some (sampleItem lineItem 2
             [(''__type__'', JString ''LineItem''), (''previousTiId'', JNumber ''1''),
              (''nextTiId'', JNumber ''3'')])"
proof -
  let ?r = "UnmarshalJSON sampleExt newSimulation (Inr sampleScenario)"
  let ?members = "[(''__type__'', JString ''LineItem''), (''previousTiId'', JNumber ''1''),
                   (''nextTiId'', JNumber ''3'')]"
  let ?pre = "[(''1'', JObject [(''__type__'', JString ''EndItem''), (''previousTiId'', JNumber ''2'')])]"
  let ?post = "[(''STN'', JObject [(''__type__'', JString ''Place''), (''placeCode'', JString ''STN'')]),
                (''3'', JObject [(''__type__'', JString ''EndItem''), (''previousTiId'', JNumber ''2'')])]"
  let ?ti0 = "\<lparr>ti_Type = lineItem, ti_ID = 0, ti_simulation = False, ti_content = JObject ?members\<rparr>"
  have "fst ?r = Returned None"
    by (simp add: sample_defs)
  then have ok: "?r = (Returned None, snd ?r)"
    by (simp add: prod_eq_iff)
  have a: "aux_TrackItems sampleScenario = ?pre @ (''2'', JObject ?members) # ?post"
    by (simp add: sampleScenario_def)
  have b: "unmarshalAuxItem (JObject ?members) = Inr (map_of (rev ?members))" by simp
  have c: "map_of (rev ?members) ''__type__'' = Some (JString ''LineItem'')" by simp
  have d: "(''LineItem'', lineItem) \<in> set itemKinds" by (simp add: itemKinds_def)
  have e: "unmarshalTI sampleExt lineItem (JObject ?members) = Inr ?ti0"
    by (simp add: sampleExt_def sampleUnmarshalTI_def memberOf_def)
  have f: "Atoi (Trim ''2'' [CHR 0x22]) = Inr 2" by (simp add: Atoi_def Trim_def)
  have g: "\<forall>later\<in>set ?post. Atoi (Trim (fst later) [CHR 0x22]) \<noteq> Inr 2"
    by (simp add: Atoi_def Trim_def)
  have "TrackItems (snd ?r) 2 = Some (?ti0\<lparr>ti_simulation := True, ti_ID := 2\<rparr>)"
    by (rule stored_ids [OF ok, THEN conjunct2, rule_format,
          where pre = ?pre and tiId = "''2''" and tiString = "JObject ?members" and post = ?post
            and rawItem = "map_of (rev ?members)" and name = "''LineItem''" and kind = lineItem])
       (intro conjI a b c d e f g)
  then show ?thesis by (simp add: sampleItem_def)
qed

text \<open>
  C8 as the specification states it fails on this scenario: the keys \<open>1\<close> and \<open>01\<close>
  are distinct, both entries decode into a track-item variant, both keys parse to the
  id 1, the decode succeeds, and the track-item mapping holds the second entry only.
\<close>

theorem distinct_keys_same_id:
  "distinct (map fst (aux_TrackItems duplicateIdScenario)) \<and>
   Atoi (Trim ''1'' [CHR 0x22]) = Inr 1 \<and>
   Atoi (Trim ''01'' [CHR 0x22]) = Inr 1 \<and>
   unmarshalTI sampleExt textItem (JObject [(''__type__'', JString ''TextItem''), (''name'', JString ''A'')]) =
     Inr \<lparr>ti_Type = textItem, ti_ID = 0, ti_simulation = False,
          ti_content = JObject [(''__type__'', JString ''TextItem''), (''name'', JString ''A'')]\<rparr> \<and>
   unmarshalTI sampleExt textItem (JObject [(''__type__'', JString ''TextItem''), (''name'', JString ''B'')]) =
     Inr \<lparr>ti_Type = textItem, ti_ID = 0, ti_simulation = False,
          ti_content = JObject [(''__type__'', JString ''TextItem''), (''name'', JString ''B'')]\<rparr> \<and>
   fst (UnmarshalJSON sampleExt newSimulation (Inr duplicateIdScenario)) = Returned None \<and>
   TrackItems (snd (UnmarshalJSON sampleExt newSimulation (Inr duplicateIdScenario))) =
     [1 \<mapsto> sampleItem textItem 1 [(''__type__'', JString ''TextItem''), (''name'', JString ''B'')]]"
  by (simp add: duplicateIdScenario_def sample_defs)

section \<open>The errors of unmarshalItem\<close>

lemma item_entry_never_fails:
  assumes "unmarshalAuxItem tiString = Inr rawItem"
    and "rawItem ''__type__'' = Some (JString name)"
    and "(name, kind) \<in> set itemKinds"
  shows "fst (trackItemStep ext (tiId, tiString) s) = None"
  by (simp add: item_entry_step [OF assms])

text \<open>
  C1: a scenario whose first track item has the key \<open>abc\<close> and whose second has a
  member its struct rejects. The closure reports the conversion error for the first and
  the decoding error for the second, and yet the decode returns nil and leaves a
  simulation with no track item: both errors were dropped and both entries skipped.
\<close>

theorem item_errors_dropped:
  "unmarshalItem sampleExt ''abc'' (JObject [(''__type__'', JString ''LineItem'')])
     (Some (JString ''LineItem'')) lineItem newSimulation =
     (Some (ConvertError ErrSyntax), newSimulation) \<and>
   unmarshalItem sampleExt ''7''
     (JObject [(''__type__'', JString ''SignalItem''), (''name'', JNumber ''12'')])
     (Some (JString ''SignalItem'')) signalItem newSimulation =
     (Some (DecodeTrackItemError (Some (JString ''SignalItem''))
              (JObject [(''__type__'', JString ''SignalItem''), (''name'', JNumber ''12'')])
              ''json: cannot unmarshal number into Go struct field .name of type string''),
      newSimulation) \<and>
   fst (UnmarshalJSON sampleExt newSimulation (Inr skippedItemsScenario)) = Returned None \<and>
   TrackItems (snd (UnmarshalJSON sampleExt newSimulation (Inr skippedItemsScenario))) = Map.empty"
  by (simp add: skippedItemsScenario_def sample_defs)

section \<open>Places\<close>

lemma trackItemStep_Places_other:
  assumes "\<forall>pl'. unmarshalPlace ext tiString = Inr pl' \<longrightarrow> PlaceCode pl' \<noteq> c"
  shows "Places (snd (trackItemStep ext (tiId, tiString) s)) c = Places s c"
proof (cases "unmarshalPlace ext tiString")
  case (Inl err)
  then show ?thesis
    by (simp add: trackItemStep_def Let_def unmarshalItem_Places split: sum.splits)
next
  case (Inr pl')
  with assms have "PlaceCode pl' \<noteq> c" by simp
  with Inr show ?thesis
    by (simp add: trackItemStep_def Let_def unmarshalItem_Places split: sum.splits)
qed

lemma trackItemsLoop_Places_other:
  "\<forall>later\<in>set entries. \<forall>pl'. unmarshalPlace ext (snd later) = Inr pl' \<longrightarrow> PlaceCode pl' \<noteq> c \<Longrightarrow>
     Places (snd (trackItemsLoop ext entries s)) c = Places s c"
proof (induction entries arbitrary: s)
  case Nil
  show ?case by simp
next
  case (Cons e es)
  obtain tiId tiString where e: "e = (tiId, tiString)" by (cases e)
  obtain r s1 where step: "trackItemStep ext e s = (r, s1)" by (cases "trackItemStep ext e s")
  from Cons.prems e have "Places (snd (trackItemStep ext e s)) c = Places s c"
    by (simp add: trackItemStep_Places_other)
  with step have s1: "Places s1 c = Places s c" by simp
  show ?case
  proof (cases r)
    case None
    with step Cons.IH [of s1] Cons.prems s1 show ?thesis by simp
  next
    case (Some err)
    with step s1 show ?thesis by simp
  qed
qed

lemma unmarshalItem_cong:
  "TrackItems s = TrackItems t \<Longrightarrow>
     fst (unmarshalItem ext tiId tiString ty kind s) = fst (unmarshalItem ext tiId tiString ty kind t) \<and>
     TrackItems (snd (unmarshalItem ext tiId tiString ty kind s)) =
       TrackItems (snd (unmarshalItem ext tiId tiString ty kind t))"
  by (simp add: unmarshalItem_def split: sum.splits)

lemma trackItemStep_cong:
  "TrackItems s = TrackItems t \<Longrightarrow>
     fst (trackItemStep ext entry s) = fst (trackItemStep ext entry t) \<and>
     TrackItems (snd (trackItemStep ext entry s)) = TrackItems (snd (trackItemStep ext entry t))"
proof -
  assume same: "TrackItems s = TrackItems t"
  note item = unmarshalItem_cong [OF same, of ext]
  show ?thesis
    by (simp add: trackItemStep_def Let_def item same split: sum.splits)
qed

lemma trackItemsLoop_cong:
  "TrackItems s = TrackItems t \<Longrightarrow>
     fst (trackItemsLoop ext entries s) = fst (trackItemsLoop ext entries t) \<and>
     TrackItems (snd (trackItemsLoop ext entries s)) = TrackItems (snd (trackItemsLoop ext entries t))"
proof (induction entries arbitrary: s t)
  case Nil
  then show ?case by simp
next
  case (Cons e es)
  obtain r s1 where ss: "trackItemStep ext e s = (r, s1)" by (cases "trackItemStep ext e s")
  obtain r' t1 where tt: "trackItemStep ext e t = (r', t1)" by (cases "trackItemStep ext e t")
  from trackItemStep_cong [OF Cons.prems, of ext e] ss tt
  have same: "r' = r" "TrackItems s1 = TrackItems t1" by simp_all
  show ?case
  proof (cases r)
    case None
    with ss tt same(1) Cons.IH [OF same(2)] show ?thesis by simp
  next
    case (Some err)
    with ss tt same show ?thesis by simp
  qed
qed

lemma routesLoop_Places:
  "Places (snd (snd (routesLoop routes s :: 'pt routesResult))) = Places s"
proof (induction routes arbitrary: s)
  case Nil
  show ?case by simp
next
  case (Cons e es)
  obtain num route where e: "e = (num, route)" by (cases e)
  show ?case
  proof (cases "Atoi num")
    case (Inl err)
    with e show ?thesis by simp
  next
    case (Inr routeNum)
    let ?s1 = "s\<lparr>Routes := (Routes s)(routeNum \<mapsto> route_initialize (route_setSimulation route))\<rparr>"
    obtain r objs s2 where loop: "(routesLoop es ?s1 :: 'pt routesResult) = (r, objs, s2)"
      by (cases "routesLoop es ?s1 :: 'pt routesResult")
    have "Places (snd (snd (routesLoop es ?s1 :: 'pt routesResult))) = Places ?s1"
      by (rule Cons.IH)
    with loop have "Places s2 = Places s" by simp
    with e Inr loop show ?thesis by (simp add: Let_def)
  qed
qed

lemma decodeRest_Places:
  fixes ext :: "'pt externals"
  shows "Places (snd (decodeRest ext rawSim s)) = Places s"
proof -
  let ?s0 = "s\<lparr>Options := aux_Options rawSim, SignalLib := aux_SignalLib rawSim, Routes := Map.empty\<rparr>"
  obtain r objs s2 where loop: "(routesLoop (aux_Routes rawSim) ?s0 :: 'pt routesResult) = (r, objs, s2)"
    by (cases "routesLoop (aux_Routes rawSim) ?s0 :: 'pt routesResult")
  have "Places (snd (snd (routesLoop (aux_Routes rawSim) ?s0 :: 'pt routesResult))) = Places ?s0"
    by (rule routesLoop_Places)
  with loop have "Places s2 = Places s" by simp
  with loop show ?thesis
    by (simp add: decodeRest_def Let_def split: option.splits sum.splits)
qed

lemma UnmarshalJSON_success_Places:
  assumes "UnmarshalJSON ext sim (Inr rawSim) = (Returned None, sim')"
  shows "\<exists>s1. trackItemsLoop ext (aux_TrackItems rawSim)
                 (sim\<lparr>TrackItems := Map.empty, Places := Map.empty\<rparr>) = (None, s1) \<and>
              Places sim' = Places s1"
proof -
  let ?s0 = "sim\<lparr>TrackItems := Map.empty, Places := Map.empty\<rparr>"
  obtain r s1 where loop: "trackItemsLoop ext (aux_TrackItems rawSim) ?s0 = (r, s1)"
    by (cases "trackItemsLoop ext (aux_TrackItems rawSim) ?s0")
  from assms loop have r: "r = None"
    by (cases r) (simp_all add: UnmarshalJSON_def)
  from assms loop r have rest: "decodeRest ext rawSim s1 = (Returned None, sim')"
    by (simp add: UnmarshalJSON_def split: option.splits)
  have "Places (snd (decodeRest ext rawSim s1)) = Places s1"
    by (rule decodeRest_Places)
  with rest have "Places sim' = Places s1" by simp
  with loop r show ?thesis by simp
qed

lemma place_step:
  assumes "unmarshalAuxItem tiString = Inr rawItem"
    and "rawItem ''__type__'' = Some (JString ''Place'')"
    and "unmarshalPlace ext tiString = Inr pl"
  shows "trackItemStep ext (tiId, tiString) s =
           (None, s\<lparr>Places := (Places s)(PlaceCode pl \<mapsto> pl)\<rparr>)"
  using assms by (simp add: trackItemStep_def)

text \<open>
  C7: the iteration for an entry whose discriminator is \<open>Place\<close>, when the place
  decodes, changes the simulation only by storing the decoded place, as it was decoded,
  in the place mapping under the place's own code; the entry's map key plays no part, no
  id is parsed from it. The track-item mapping the loop builds is the one it builds
  without the entry. After a successful decode the place is found under its code, unless
  an entry visited later was a place of the same code.
\<close>

theorem place_entry_stored:
  assumes "unmarshalAuxItem tiString = Inr rawItem"
    and "rawItem ''__type__'' = Some (JString ''Place'')"
    and "unmarshalPlace ext tiString = Inr pl"
  shows "trackItemStep ext (tiId, tiString) s =
           (None, s\<lparr>Places := (Places s)(PlaceCode pl \<mapsto> pl)\<rparr>) \<and>
         trackItemStep ext (otherId, tiString) s = trackItemStep ext (tiId, tiString) s \<and>
         TrackItems (snd (trackItemsLoop ext (pre @ (tiId, tiString) # post) s)) =
           TrackItems (snd (trackItemsLoop ext (pre @ post) s)) \<and>
         (aux_TrackItems rawSim = pre @ (tiId, tiString) # post \<and>
          UnmarshalJSON ext sim (Inr rawSim) = (Returned None, sim') \<and>
          (\<forall>later\<in>set post. \<forall>pl'. unmarshalPlace ext (snd later) = Inr pl' \<longrightarrow>
             PlaceCode pl' \<noteq> PlaceCode pl) \<longrightarrow>
            Places sim' (PlaceCode pl) = Some pl)"
proof (intro conjI impI)
  have step: "trackItemStep ext (k, tiString) s =
           (None, s\<lparr>Places := (Places s)(PlaceCode pl \<mapsto> pl)\<rparr>)" for k s
    using assms by (rule place_step)
  show "trackItemStep ext (tiId, tiString) s =
           (None, s\<lparr>Places := (Places s)(PlaceCode pl \<mapsto> pl)\<rparr>)"
    by (rule step)
  show "trackItemStep ext (otherId, tiString) s = trackItemStep ext (tiId, tiString) s"
    by (simp add: step)
  show "TrackItems (snd (trackItemsLoop ext (pre @ (tiId, tiString) # post) s)) =
           TrackItems (snd (trackItemsLoop ext (pre @ post) s))"
  proof (cases "trackItemsLoop ext pre s")
    case (Pair r s1)
    show ?thesis
    proof (cases r)
      case None
      let ?s2 = "s1\<lparr>Places := (Places s1)(PlaceCode pl \<mapsto> pl)\<rparr>"
      have "TrackItems ?s2 = TrackItems s1" by simp
      from trackItemsLoop_cong [OF this, of ext post] Pair None show ?thesis
        by (simp add: trackItemsLoop_append step)
    next
      case (Some err)
      with Pair show ?thesis by (simp add: trackItemsLoop_append)
    qed
  qed
  assume h: "aux_TrackItems rawSim = pre @ (tiId, tiString) # post \<and>
          UnmarshalJSON ext sim (Inr rawSim) = (Returned None, sim') \<and>
          (\<forall>later\<in>set post. \<forall>pl'. unmarshalPlace ext (snd later) = Inr pl' \<longrightarrow>
             PlaceCode pl' \<noteq> PlaceCode pl)"
  let ?s0 = "sim\<lparr>TrackItems := Map.empty, Places := Map.empty\<rparr>"
  from h have ok: "UnmarshalJSON ext sim (Inr rawSim) = (Returned None, sim')" by simp
  from h have entries: "aux_TrackItems rawSim = pre @ (tiId, tiString) # post" by simp
  from h have later: "\<forall>later\<in>set post. \<forall>pl'. unmarshalPlace ext (snd later) = Inr pl' \<longrightarrow>
             PlaceCode pl' \<noteq> PlaceCode pl" by simp
  from UnmarshalJSON_success_Places [OF ok] obtain s1 where
    "trackItemsLoop ext (aux_TrackItems rawSim) ?s0 = (None, s1)"
    and same: "Places sim' = Places s1" by blast
  with entries have loop: "trackItemsLoop ext (pre @ (tiId, tiString) # post) ?s0 = (None, s1)"
    by simp
  obtain r2 s2 where pre: "trackItemsLoop ext pre ?s0 = (r2, s2)"
    by (cases "trackItemsLoop ext pre ?s0")
  from loop pre have r2: "r2 = None"
    by (cases r2) (simp_all add: trackItemsLoop_append)
  let ?s3 = "s2\<lparr>Places := (Places s2)(PlaceCode pl \<mapsto> pl)\<rparr>"
  from loop pre r2 have post: "trackItemsLoop ext post ?s3 = (None, s1)"
    by (simp add: trackItemsLoop_append step)
  from later have "Places (snd (trackItemsLoop ext post ?s3)) (PlaceCode pl) = Places ?s3 (PlaceCode pl)"
    by (rule trackItemsLoop_Places_other)
  with post same show "Places sim' (PlaceCode pl) = Some pl" by simp
qed

theorem place_entry_stored_witness:
  "trackItemStep sampleExt
     (''STN'', JObject [(''__type__'', JString ''Place''), (''placeCode'', JString ''STN'')])
     newSimulation =
   (None,
    newSimulation
      \<lparr>Places :=
         [''STN'' \<mapsto>
            \<lparr>PlaceCode = ''STN'',
             place_content =
               JObject [(''__type__'', JString ''Place''), (''placeCode'', JString ''STN'')]\<rparr>]\<rparr>) \<and>
   Places (snd (UnmarshalJSON sampleExt newSimulation (Inr sampleScenario))) ''STN'' =
     Some \<lparr>PlaceCode = ''STN'',
           place_content =
             JObject [(''__type__'', JString ''Place''), (''placeCode'', JString ''STN'')]\<rparr>"
proof -
  let ?r = "UnmarshalJSON sampleExt newSimulation (Inr sampleScenario)"
  let ?members = "[(''__type__'', JString ''Place''), (''placeCode'', JString ''STN'')]"
  let ?pl = "\<lparr>PlaceCode = ''STN'', place_content = JObject ?members\<rparr>"
  let ?pre = "[(''1'', JObject [(''__type__'', JString ''EndItem''), (''previousTiId'', JNumber ''2'')]),
               (''2'', JObject [(''__type__'', JString ''LineItem''), (''previousTiId'', JNumber ''1''),
                                (''nextTiId'', JNumber ''3'')])]"
  let ?post = "[(''3'', JObject [(''__type__'', JString ''EndItem''), (''previousTiId'', JNumber ''2'')])]"
  have a: "unmarshalAuxItem (JObject ?members) = Inr (map_of (rev ?members))" by simp
  have b: "map_of (rev ?members) ''__type__'' = Some (JString ''Place'')" by simp
  have c: "unmarshalPlace sampleExt (JObject ?members) = Inr ?pl"
    by (simp add: sampleExt_def sampleUnmarshalPlace_def memberOf_def)
  have "fst ?r = Returned None"
    by (simp add: sample_defs)
  then have ok: "?r = (Returned None, snd ?r)"
    by (simp add: prod_eq_iff)
  have entries: "aux_TrackItems sampleScenario = ?pre @ (''STN'', JObject ?members) # ?post"
    by (simp add: sampleScenario_def)
  have later: "\<forall>later\<in>set ?post. \<forall>pl'. unmarshalPlace sampleExt (snd later) = Inr pl' \<longrightarrow>
                 PlaceCode pl' \<noteq> PlaceCode ?pl"
    by (auto simp add: sampleExt_def sampleUnmarshalPlace_def memberOf_def)
  note inst = place_entry_stored [OF a b c, where tiId = "''STN''" and otherId = "''STN''"
      and s = newSimulation and pre = ?pre and post = ?post and rawSim = sampleScenario
      and sim = newSimulation and sim' = "snd ?r"]
  from inst have first: "trackItemStep sampleExt (''STN'', JObject ?members) newSimulation =
      (None, newSimulation\<lparr>Places := (Places newSimulation)(PlaceCode ?pl \<mapsto> ?pl)\<rparr>)"
    by (rule conjunct1)
  from inst entries ok later have "Places (snd ?r) (PlaceCode ?pl) = Some ?pl"
    by blast
  with first show ?thesis by (simp add: newSimulation_def)
qed

end
